theory Spec2Isabelle
  imports Main "HOL-Library.Sublist" "HOL-Library.AList"
begin

section \<open>Python values the translator relies on\<close>

text \<open>
  The translator is a Python program of four stages (lexer.py, parser.py,
  semantic_analyzer.py, code_generator.py) driven by compiler.py. A Python \<open>str\<close> is
  modelled as a \<^typ>\<open>string\<close>, one \<^typ>\<open>char\<close> per code point, so the model covers
  source texts whose code points are below 256 (ASCII and Latin-1). Python integers
  are unbounded: positions are \<^typ>\<open>nat\<close>, literal values are \<^typ>\<open>int\<close>. The
  interpreter's resource limits (recursion depth, memory, the digit limit of
  \<open>int()\<close> and \<open>str()\<close>) are not part of the model.
\<close>

definition code_point :: "char \<Rightarrow> nat" where
  "code_point c = of_char c"

text \<open>\<open>str.isdigit\<close>, \<open>str.isalpha\<close>, \<open>str.isalnum\<close> and \<open>str.isupper\<close> on one
  character, by the Unicode tables for code points below 256.\<close>

definition is_ascii_digit :: "char \<Rightarrow> bool" where
  "is_ascii_digit c = (48 \<le> code_point c \<and> code_point c \<le> 57)"

definition isdigit :: "char \<Rightarrow> bool" where
  "isdigit c = (is_ascii_digit c \<or> code_point c = 178 \<or> code_point c = 179
     \<or> code_point c = 185)"

definition isalpha :: "char \<Rightarrow> bool" where
  "isalpha c = (let n = code_point c in
     (65 \<le> n \<and> n \<le> 90) \<or> (97 \<le> n \<and> n \<le> 122) \<or> n = 170 \<or> n = 181 \<or> n = 186
     \<or> (192 \<le> n \<and> n \<le> 214) \<or> (216 \<le> n \<and> n \<le> 246) \<or> 248 \<le> n)"

definition isalnum :: "char \<Rightarrow> bool" where
  "isalnum c = (isalpha c \<or> isdigit c \<or> (188 \<le> code_point c \<and> code_point c \<le> 190))"

definition isupper :: "char \<Rightarrow> bool" where
  "isupper c = (let n = code_point c in
     (65 \<le> n \<and> n \<le> 90) \<or> (192 \<le> n \<and> n \<le> 214) \<or> (216 \<le> n \<and> n \<le> 222))"

text \<open>\<open>sep.join(xs)\<close>.\<close>

fun join :: "string \<Rightarrow> string list \<Rightarrow> string" where
  "join sep [] = []"
| "join sep [x] = x"
| "join sep (x # y # ys) = x @ sep @ join sep (y # ys)"

text \<open>\<open>str(n)\<close> for an integer: decimal digits, a minus sign when negative.\<close>

fun str_nat :: "nat \<Rightarrow> string" where
  "str_nat n = (if n < 10 then [char_of (48 + n)]
     else str_nat (n div 10) @ [char_of (48 + n mod 10)])"

declare str_nat.simps [simp del]

definition str_int :: "int \<Rightarrow> string" where
  "str_int i = (if i < 0 then CHR ''-'' # str_nat (nat (- i)) else str_nat (nat i))"

text \<open>The exceptions that cross function boundaries in the translator; each carries
  its message, which is what \<open>str(e)\<close> and an f-string print.\<close>

datatype exc =
    ParseError string
  | ValueError string
  | IndexError string
  | CompilerError string

fun exc_str :: "exc \<Rightarrow> string" where
  "exc_str (ParseError m) = m"
| "exc_str (ValueError m) = m"
| "exc_str (IndexError m) = m"
| "exc_str (CompilerError m) = m"

section \<open>lexer.py\<close>

datatype TokenType =
    NUMBER | STRING | IDENTIFIER
  | DEF | IF | ELSE | ELIF | FOR | WHILE | RETURN | CLASS | IMPORT | FROM | AS
  | TRUE | FALSE | NONE | AND | OR | NOT | IN | IS
  | PLUS | MINUS | MULTIPLY | DIVIDE | MODULO | POWER | ASSIGN | PLUS_ASSIGN
  | MINUS_ASSIGN | EQ | NE | LT | LE | GT | GE
  | LPAREN | RPAREN | LBRACKET | RBRACKET | LBRACE | RBRACE | COMMA | COLON | DOT
  | NEWLINE | INDENT | DEDENT | EOF

text \<open>\<open>str(t)\<close> of an enum member, as the parser's messages print it.\<close>

fun TokenType_name :: "TokenType \<Rightarrow> string" where
  "TokenType_name NUMBER = ''NUMBER''" | "TokenType_name STRING = ''STRING''"
| "TokenType_name IDENTIFIER = ''IDENTIFIER''" | "TokenType_name DEF = ''DEF''"
| "TokenType_name IF = ''IF''" | "TokenType_name ELSE = ''ELSE''"
| "TokenType_name ELIF = ''ELIF''" | "TokenType_name FOR = ''FOR''"
| "TokenType_name WHILE = ''WHILE''" | "TokenType_name RETURN = ''RETURN''"
| "TokenType_name CLASS = ''CLASS''" | "TokenType_name IMPORT = ''IMPORT''"
| "TokenType_name FROM = ''FROM''" | "TokenType_name AS = ''AS''"
| "TokenType_name TRUE = ''TRUE''" | "TokenType_name FALSE = ''FALSE''"
| "TokenType_name NONE = ''NONE''" | "TokenType_name AND = ''AND''"
| "TokenType_name OR = ''OR''" | "TokenType_name NOT = ''NOT''"
| "TokenType_name IN = ''IN''" | "TokenType_name IS = ''IS''"
| "TokenType_name PLUS = ''PLUS''" | "TokenType_name MINUS = ''MINUS''"
| "TokenType_name MULTIPLY = ''MULTIPLY''" | "TokenType_name DIVIDE = ''DIVIDE''"
| "TokenType_name MODULO = ''MODULO''" | "TokenType_name POWER = ''POWER''"
| "TokenType_name ASSIGN = ''ASSIGN''" | "TokenType_name PLUS_ASSIGN = ''PLUS_ASSIGN''"
| "TokenType_name MINUS_ASSIGN = ''MINUS_ASSIGN''" | "TokenType_name EQ = ''EQ''"
| "TokenType_name NE = ''NE''" | "TokenType_name LT = ''LT''"
| "TokenType_name LE = ''LE''" | "TokenType_name GT = ''GT''"
| "TokenType_name GE = ''GE''" | "TokenType_name LPAREN = ''LPAREN''"
| "TokenType_name RPAREN = ''RPAREN''" | "TokenType_name LBRACKET = ''LBRACKET''"
| "TokenType_name RBRACKET = ''RBRACKET''" | "TokenType_name LBRACE = ''LBRACE''"
| "TokenType_name RBRACE = ''RBRACE''" | "TokenType_name COMMA = ''COMMA''"
| "TokenType_name COLON = ''COLON''" | "TokenType_name DOT = ''DOT''"
| "TokenType_name NEWLINE = ''NEWLINE''" | "TokenType_name INDENT = ''INDENT''"
| "TokenType_name DEDENT = ''DEDENT''" | "TokenType_name EOF = ''EOF''"

definition TokenType_str :: "TokenType \<Rightarrow> string" where
  "TokenType_str t = ''TokenType.'' @ TokenType_name t"

record Token =
  tok_type :: TokenType
  tok_value :: string
  tok_line :: nat
  tok_column :: nat

definition Tok :: "TokenType \<Rightarrow> string \<Rightarrow> nat \<Rightarrow> nat \<Rightarrow> Token" where
  "Tok ty v ln col = \<lparr>tok_type = ty, tok_value = v, tok_line = ln, tok_column = col\<rparr>"

text \<open>\<open>TokenType(value)\<close> for a lexeme in \<open>self.keywords\<close>; \<open>None\<close> when the lexeme is
  not a keyword.\<close>

definition keyword_type :: "string \<Rightarrow> TokenType option" where
  "keyword_type v = map_of
     [(''def'', DEF), (''if'', IF), (''else'', ELSE), (''elif'', ELIF), (''for'', FOR),
      (''while'', WHILE), (''return'', RETURN), (''class'', CLASS), (''import'', IMPORT),
      (''from'', FROM), (''as'', AS), (''True'', TRUE), (''False'', FALSE),
      (''None'', NONE), (''and'', AND), (''or'', OR), (''not'', NOT), (''in'', IN),
      (''is'', IS)] v"

record Lexer =
  lx_text :: string
  lx_pos :: nat
  lx_line :: nat
  lx_column :: nat
  lx_indent_stack :: "nat list"

definition Lexer_init :: "string \<Rightarrow> Lexer" where
  "Lexer_init text = \<lparr>lx_text = text, lx_pos = 0, lx_line = 1, lx_column = 1,
     lx_indent_stack = [0]\<rparr>"

definition current_char :: "Lexer \<Rightarrow> char option" where
  "current_char l = (if lx_pos l < length (lx_text l) then Some (lx_text l ! lx_pos l)
     else None)"

definition peek_char :: "Lexer \<Rightarrow> char option" where
  "peek_char l = (let peek_pos = lx_pos l + 1 in
     if peek_pos < length (lx_text l) then Some (lx_text l ! peek_pos) else None)"

definition advance :: "Lexer \<Rightarrow> Lexer" where
  "advance l =
     (if lx_pos l < length (lx_text l) \<and> lx_text l ! lx_pos l = CHR ''\<newline>''
      then l\<lparr>lx_line := lx_line l + 1, lx_column := 1, lx_pos := lx_pos l + 1\<rparr>
      else l\<lparr>lx_column := lx_column l + 1, lx_pos := lx_pos l + 1\<rparr>)"

definition is_space_tab :: "char \<Rightarrow> bool" where
  "is_space_tab c = (c = CHR '' '' \<or> c = CHR 0x09)"

text \<open>The loop \<open>while self.current_char() and P(self.current_char()): self.advance()\<close>,
  which the lexer writes four times (blanks, comments, numbers, identifiers).\<close>

function advance_while :: "(char \<Rightarrow> bool) \<Rightarrow> Lexer \<Rightarrow> Lexer" where
  "advance_while P l =
     (case current_char l of
        None \<Rightarrow> l
      | Some c \<Rightarrow> if P c then advance_while P (advance l) else l)"
  by pat_completeness auto
termination
  by (relation "measure (\<lambda>(P, l). length (lx_text l) - lx_pos l)")
     (auto simp: current_char_def advance_def split: if_splits)

declare advance_while.simps [simp del]

definition skip_whitespace :: "Lexer \<Rightarrow> Lexer" where
  "skip_whitespace l = advance_while is_space_tab l"

definition slice :: "string \<Rightarrow> nat \<Rightarrow> nat \<Rightarrow> string" where
  "slice s i j = take (j - i) (drop i s)"

text \<open>The conditions of the three other loops of that shape.\<close>

definition is_number_char :: "char \<Rightarrow> bool" where
  "is_number_char c = (isdigit c \<or> c = CHR ''.'')"

definition is_identifier_char :: "char \<Rightarrow> bool" where
  "is_identifier_char c = (isalnum c \<or> c = CHR ''_'')"

definition is_not_newline :: "char \<Rightarrow> bool" where
  "is_not_newline c = (c \<noteq> CHR ''\<newline>'')"

text \<open>A method that returns a value and moves the lexer gives the pair of the lexer
  after the call and the value.\<close>

definition read_number :: "Lexer \<Rightarrow> Lexer \<times> Token" where
  "read_number l =
     (let start_pos = lx_pos l; start_col = lx_column l;
          l' = advance_while is_number_char l;
          v = slice (lx_text l') start_pos (lx_pos l')
      in (l', Tok NUMBER v (lx_line l') start_col))"

function read_string_loop :: "char \<Rightarrow> string \<Rightarrow> Lexer \<Rightarrow> Lexer \<times> string" where
  "read_string_loop quote_char v l =
     (case current_char l of
        None \<Rightarrow> (l, v)
      | Some c \<Rightarrow>
          if c = quote_char then (l, v)
          else if c = CHR 0x5C then
            (let l1 = advance l in
             case current_char l1 of
               None \<Rightarrow> read_string_loop quote_char v l1
             | Some c1 \<Rightarrow> read_string_loop quote_char (v @ [c1]) (advance l1))
          else read_string_loop quote_char (v @ [c]) (advance l))"
  by pat_completeness auto
termination
  by (relation "measure (\<lambda>(q, v, l). length (lx_text l) - lx_pos l)")
     (auto simp: current_char_def advance_def split: if_splits)

declare read_string_loop.simps [simp del]

definition read_string :: "Lexer \<Rightarrow> Lexer \<times> Token" where
  "read_string l =
     (let quote_char = lx_text l ! lx_pos l; start_col = lx_column l;
          (l1, v) = read_string_loop quote_char [] (advance l);
          l2 = (if current_char l1 = Some quote_char then advance l1 else l1)
      in (l2, Tok STRING v (lx_line l2) start_col))"

definition read_identifier :: "Lexer \<Rightarrow> Lexer \<times> Token" where
  "read_identifier l =
     (let start_pos = lx_pos l; start_col = lx_column l;
          l' = advance_while is_identifier_char l;
          v = slice (lx_text l') start_pos (lx_pos l');
          token_type = (case keyword_type v of None \<Rightarrow> IDENTIFIER | Some k \<Rightarrow> k)
      in (l', Tok token_type v (lx_line l') start_col))"

text \<open>The counting loop of \<open>handle_indentation\<close>: a space is one unit, a tab four.\<close>

function measure_indent :: "nat \<Rightarrow> Lexer \<Rightarrow> Lexer \<times> nat" where
  "measure_indent indent_level l =
     (case current_char l of
        None \<Rightarrow> (l, indent_level)
      | Some c \<Rightarrow>
          if is_space_tab c
          then measure_indent (if c = CHR '' '' then indent_level + 1 else indent_level + 4)
                 (advance l)
          else (l, indent_level))"
  by pat_completeness auto
termination
  by (relation "measure (\<lambda>(n, l). length (lx_text l) - lx_pos l)")
     (auto simp: current_char_def advance_def split: if_splits)

declare measure_indent.simps [simp del]

text \<open>\<open>while self.indent_stack and self.indent_stack[-1] > indent_level\<close>: pop, and
  append one DEDENT. The stack is a Python list, its top the last element.\<close>

function dedent_to :: "nat \<Rightarrow> Lexer \<Rightarrow> Token list \<Rightarrow> Lexer \<times> Token list" where
  "dedent_to indent_level l tokens =
     (if lx_indent_stack l \<noteq> [] \<and> last (lx_indent_stack l) > indent_level
      then dedent_to indent_level (l\<lparr>lx_indent_stack := butlast (lx_indent_stack l)\<rparr>)
             (tokens @ [Tok DEDENT [] (lx_line l) (lx_column l)])
      else (l, tokens))"
  by pat_completeness auto
termination
  by (relation "measure (\<lambda>(n, l, ts). length (lx_indent_stack l))") auto

declare dedent_to.simps [simp del]

text \<open>\<open>while len(self.indent_stack) > 1\<close>: pop, and append one DEDENT.\<close>

function dedent_all :: "Lexer \<Rightarrow> Token list \<Rightarrow> Lexer \<times> Token list" where
  "dedent_all l tokens =
     (if length (lx_indent_stack l) > 1
      then dedent_all (l\<lparr>lx_indent_stack := butlast (lx_indent_stack l)\<rparr>)
             (tokens @ [Tok DEDENT [] (lx_line l) (lx_column l)])
      else (l, tokens))"
  by pat_completeness auto
termination
  by (relation "measure (\<lambda>(l, ts). length (lx_indent_stack l))") auto

declare dedent_all.simps [simp del]

text \<open>\<open>handle_indentation\<close> returns the tokens it made. \<open>self.indent_stack[-1]\<close> reads
  the last element; the stack is never empty (lemma \<open>tokenize_loop_invariant\<close>
  below), so the read does not raise.\<close>

definition handle_indentation :: "Lexer \<Rightarrow> Lexer \<times> Token list" where
  "handle_indentation l =
     (let (l1, indent_level) = measure_indent 0 l in
      if current_char l1 = Some (CHR ''\<newline>'') \<or> current_char l1 = Some (CHR ''#'')
         \<or> current_char l1 = None
      then (l1, [])
      else
        (let current_indent = last (lx_indent_stack l1) in
         if indent_level > current_indent
         then (l1\<lparr>lx_indent_stack := lx_indent_stack l1 @ [indent_level]\<rparr>,
               [Tok INDENT [] (lx_line l1) (lx_column l1)])
         else if indent_level < current_indent
         then dedent_to indent_level l1 []
         else (l1, [])))"

text \<open>The single-character table at the end of \<open>tokenize\<close>.\<close>

definition token_map :: "char \<Rightarrow> TokenType option" where
  "token_map c = map_of
     [(CHR ''/'', DIVIDE), (CHR ''%'', MODULO), (CHR ''('', LPAREN), (CHR '')'', RPAREN),
      (CHR ''['', LBRACKET), (CHR '']'', RBRACKET), (CHR ''{'', LBRACE),
      (CHR ''}'', RBRACE), (CHR '','', COMMA), (CHR '':'', COLON), (CHR ''.'', DOT)] c"

text \<open>The state of the main loop of \<open>tokenize\<close>: the flag \<open>at_line_start\<close>, the lexer
  and the list \<open>tokens\<close>.\<close>

type_synonym tokenize_state = "bool \<times> Lexer \<times> Token list"

text \<open>An operator of one or two characters: \<open>second\<close> after \<open>char\<close> gives the token
  \<open>two\<close>, anything else the token \<open>one\<close>.\<close>

definition one_or_two ::
  "Lexer \<Rightarrow> Token list \<Rightarrow> char \<Rightarrow> char \<Rightarrow> TokenType \<Rightarrow> TokenType \<Rightarrow> tokenize_state"
where
  "one_or_two l tokens char second two one =
     (if peek_char l = Some second
      then (False, advance (advance l),
            tokens @ [Tok two [char, second] (lx_line l) (lx_column l)])
      else (False, advance l, tokens @ [Tok one [char] (lx_line l) (lx_column l)]))"

text \<open>The body of the main loop from \<open>if char == '\n'\<close> on; \<open>at_line_start\<close> is false
  there, and only the newline branch sets it. The branch for \<open>!\<close> has no \<open>else\<close>: a \<open>!\<close>
  that no \<open>=\<close> follows leaves the lexer where it is.\<close>

definition scan_token :: "char \<Rightarrow> Lexer \<Rightarrow> Token list \<Rightarrow> tokenize_state" where
  "scan_token char l tokens =
     (if char = CHR ''\<newline>''
      then (True, advance l, tokens @ [Tok NEWLINE [char] (lx_line l) (lx_column l)])
      else if is_space_tab char then (False, skip_whitespace l, tokens)
      else if char = CHR ''#'' then (False, advance_while is_not_newline l, tokens)
      else if isdigit char
      then (let (l', t) = read_number l in (False, l', tokens @ [t]))
      else if char = CHR 0x22 \<or> char = CHR 0x27
      then (let (l', t) = read_string l in (False, l', tokens @ [t]))
      else if isalpha char \<or> char = CHR ''_''
      then (let (l', t) = read_identifier l in (False, l', tokens @ [t]))
      else if char = CHR ''+'' then one_or_two l tokens char (CHR ''='') PLUS_ASSIGN PLUS
      else if char = CHR ''-'' then one_or_two l tokens char (CHR ''='') MINUS_ASSIGN MINUS
      else if char = CHR ''*'' then one_or_two l tokens char (CHR ''*'') POWER MULTIPLY
      else if char = CHR ''='' then one_or_two l tokens char (CHR ''='') EQ ASSIGN
      else if char = CHR ''!''
      then (if peek_char l = Some (CHR ''='')
            then (False, advance (advance l),
                  tokens @ [Tok NE ''!='' (lx_line l) (lx_column l)])
            else (False, l, tokens))
      else if char = CHR ''<'' then one_or_two l tokens char (CHR ''='') LE LT
      else if char = CHR ''>'' then one_or_two l tokens char (CHR ''='') GE GT
      else
        (case token_map char of
           Some ty \<Rightarrow> (False, advance l, tokens @ [Tok ty [char] (lx_line l) (lx_column l)])
         | None \<Rightarrow> (False, advance l, tokens)))"

text \<open>One iteration of \<open>while self.pos < len(self.text)\<close>.\<close>

definition tokenize_step :: "tokenize_state \<Rightarrow> tokenize_state" where
  "tokenize_step s =
     (case s of (at_line_start, l, tokens) \<Rightarrow>
        let char = lx_text l ! lx_pos l in
        if at_line_start \<and> is_space_tab char
        then (let (l', indent_tokens) = handle_indentation l
              in (False, l', tokens @ indent_tokens))
        else if at_line_start \<and> char = CHR ''\<newline>''
        then (let (l', tokens') = dedent_all l tokens
              in (True, advance l',
                  tokens' @ [Tok NEWLINE [char] (lx_line l') (lx_column l')]))
        else if at_line_start
        then (let (l', tokens') = dedent_all l tokens in scan_token char l' tokens')
        else scan_token char l tokens)"

text \<open>The main loop. It has no bound of its own, so it is a partial function: \<open>None\<close>
  is the run that never leaves the loop.\<close>

definition at_end :: "tokenize_state \<Rightarrow> bool" where
  "at_end s = (\<not> lx_pos (fst (snd s)) < length (lx_text (fst (snd s))))"

partial_function (option) tokenize_loop :: "tokenize_state \<Rightarrow> tokenize_state option" where
  "tokenize_loop s = (if at_end s then Some s else tokenize_loop (tokenize_step s))"

declare tokenize_loop.simps [code]

text \<open>After the loop: one DEDENT for each level still open, then EOF.\<close>

definition tokenize_finish :: "tokenize_state \<Rightarrow> Token list" where
  "tokenize_finish s =
     (case s of (at_line_start, l, tokens) \<Rightarrow>
        let (l', tokens') = dedent_all l tokens
        in tokens' @ [Tok EOF [] (lx_line l') (lx_column l')])"

definition tokenize :: "string \<Rightarrow> Token list option" where
  "tokenize text = map_option tokenize_finish (tokenize_loop (True, Lexer_init text, []))"

section \<open>ast_nodes.py\<close>

text \<open>The value of a \<open>Literal\<close> is any Python object. The parser stores an \<open>int\<close>, a
  \<open>float\<close>, a \<open>str\<close>, a \<open>bool\<close> or \<open>None\<close>. Floating point is not modelled: a float is
  kept as the lexeme that \<open>float()\<close> accepted.\<close>

datatype pyval = PyInt int | PyFloat string | PyStr string | PyBool bool | PyNone

datatype Expression =
    BinaryOp Expression string Expression
  | UnaryOp string Expression
  | FunctionCall string "Expression list"
  | MethodCall Expression string "Expression list"
  | Identifier string
  | Literal pyval string
  | ListLiteral "Expression list"
  | DictLiteral "(Expression \<times> Expression) list"
  | AttributeAccess Expression string
  | IndexAccess Expression Expression

datatype Statement =
    FunctionDef string "string list" "Statement list"
  | ClassDef string "Statement list"
  | IfStatement Expression "Statement list" "Statement list option"
  | ForStatement string Expression "Statement list"
  | WhileStatement Expression "Statement list"
  | ReturnStatement "Expression option"
  | AssignStatement string Expression
  | ExpressionStatement Expression

datatype Program = Program "Statement list"

section \<open>parser.py\<close>

record Parser =
  p_tokens :: "Token list"
  p_pos :: nat

definition Parser_init :: "Token list \<Rightarrow> Parser" where
  "Parser_init tokens = \<lparr>p_tokens = tokens, p_pos = 0\<rparr>"

text \<open>\<open>self.tokens[-1]\<close> is the last token; on an empty list Python raises IndexError,
  which \<open>parse_fuel\<close> below reports before any token is read.\<close>

definition current_token :: "Parser \<Rightarrow> Token" where
  "current_token p = (if p_pos p < length (p_tokens p) then p_tokens p ! p_pos p
     else last (p_tokens p))"

definition peek_token :: "Parser \<Rightarrow> Token" where
  "peek_token p = (let peek_pos = p_pos p + 1 in
     if peek_pos < length (p_tokens p) then p_tokens p ! peek_pos else last (p_tokens p))"

definition p_advance :: "Parser \<Rightarrow> Parser" where
  "p_advance p = (if p_pos p + 1 < length (p_tokens p) then p\<lparr>p_pos := p_pos p + 1\<rparr>
     else p)"

definition match :: "TokenType \<Rightarrow> Parser \<Rightarrow> bool" where
  "match token_type p = (tok_type (current_token p) = token_type)"

text \<open>
  A parser method returns a value and leaves the cursor moved, or raises. Its loops
  and its recursion have no bound in the source (a token list that does not end in
  EOF can keep \<open>skip_newlines\<close> turning for ever), so the model gives them a fuel:
  each loop iteration and each recursive call lowers it by one. The outcome is
  \<open>None\<close> when the fuel ran out, \<open>Some (Inl e)\<close> when the method raised \<open>e\<close>,
  \<open>Some (Inr (p, v))\<close> when it returned \<open>v\<close> with the parser in state \<open>p\<close>.
  A continuation of \<open>pbind\<close> takes the parser after the call, then the value.

  The methods of the expression grammar call each other in a ladder whose only way
  back up is \<open>self.parse_expression()\<close>; the methods of the statement grammar come
  back through \<open>self.parse_statement()\<close>. In the model each method takes that method
  as its first argument (\<open>pe\<close>, \<open>ps\<close>), and \<open>parse_expression\<close> and \<open>parse_statement\<close>
  close the recursion on the fuel.
\<close>

type_synonym 'a result = "(exc + Parser \<times> 'a) option"

definition ok :: "'a \<Rightarrow> Parser \<Rightarrow> 'a result" where
  "ok v p = Some (Inr (p, v))"

definition raise :: "exc \<Rightarrow> 'a result" where
  "raise e = Some (Inl e)"

definition pbind :: "'a result \<Rightarrow> (Parser \<Rightarrow> 'a \<Rightarrow> 'b result) \<Rightarrow> 'b result" where
  "pbind m f = (case m of None \<Rightarrow> None | Some (Inl e) \<Rightarrow> Some (Inl e)
     | Some (Inr (p, v)) \<Rightarrow> f p v)"

definition consume :: "TokenType \<Rightarrow> Parser \<Rightarrow> Token result" where
  "consume token_type p =
     (if \<not> match token_type p
      then raise (ParseError (''Expected '' @ TokenType_str token_type @ '', got ''
             @ TokenType_str (tok_type (current_token p))))
      else ok (current_token p) (p_advance p))"

fun skip_newlines :: "nat \<Rightarrow> Parser \<Rightarrow> unit result" where
  "skip_newlines 0 p = None"
| "skip_newlines (Suc n) p =
     (if match NEWLINE p then skip_newlines n (p_advance p) else ok () p)"

text \<open>\<open>repr(s)\<close> for a lexeme of \<open>read_number\<close> (digits and dots, no quote and no
  backslash): the lexeme between single quotes.\<close>

definition repr_str :: "string \<Rightarrow> string" where
  "repr_str s = [CHR 0x27] @ s @ [CHR 0x27]"

fun digits_value :: "nat \<Rightarrow> string \<Rightarrow> nat" where
  "digits_value acc [] = acc"
| "digits_value acc (c # cs) = digits_value (10 * acc + (code_point c - 48)) cs"

text \<open>\<open>int(value)\<close> and \<open>float(value)\<close> on a lexeme of \<open>read_number\<close>. The lexeme is a
  run of \<open>isdigit\<close> characters and dots; the conversions accept decimal digits only,
  and \<open>float\<close> at most one dot.\<close>

definition py_int :: "string \<Rightarrow> exc + pyval" where
  "py_int v =
     (if v \<noteq> [] \<and> list_all is_ascii_digit v then Inr (PyInt (int (digits_value 0 v)))
      else Inl (ValueError (''invalid literal for int() with base 10: '' @ repr_str v)))"

definition py_float :: "string \<Rightarrow> exc + pyval" where
  "py_float v =
     (if list_all (\<lambda>c. is_ascii_digit c \<or> c = CHR ''.'') v \<and> list_ex is_ascii_digit v
         \<and> count_list v (CHR ''.'') \<le> 1
      then Inr (PyFloat v)
      else Inl (ValueError (''could not convert string to float: '' @ repr_str v)))"

subsection \<open>Expressions\<close>

fun call_args_loop ::
  "(Parser \<Rightarrow> Expression result) \<Rightarrow> nat \<Rightarrow> Expression list \<Rightarrow> Parser \<Rightarrow> Expression list result"
where
  "call_args_loop pe 0 args p = None"
| "call_args_loop pe (Suc n) args p =
     (if \<not> match RPAREN p
      then pbind (pe p)
             (\<lambda>p arg. call_args_loop pe n (args @ [arg])
                (if match COMMA p then p_advance p else p))
      else ok args p)"

fun list_loop ::
  "(Parser \<Rightarrow> Expression result) \<Rightarrow> nat \<Rightarrow> Expression list \<Rightarrow> Parser \<Rightarrow> Expression list result"
where
  "list_loop pe 0 elements p = None"
| "list_loop pe (Suc n) elements p =
     (if \<not> match RBRACKET p
      then pbind (pe p)
             (\<lambda>p e. list_loop pe n (elements @ [e])
                (if match COMMA p then p_advance p else p))
      else ok elements p)"

definition parse_list_literal ::
  "(Parser \<Rightarrow> Expression result) \<Rightarrow> nat \<Rightarrow> Parser \<Rightarrow> Expression result"
where
  "parse_list_literal pe n p =
     pbind (consume LBRACKET p)
       (\<lambda>p t. pbind (list_loop pe n [] p)
          (\<lambda>p elements. pbind (consume RBRACKET p)
             (\<lambda>p t. ok (ListLiteral elements) p)))"

fun dict_loop ::
  "(Parser \<Rightarrow> Expression result) \<Rightarrow> nat \<Rightarrow> (Expression \<times> Expression) list \<Rightarrow> Parser
     \<Rightarrow> (Expression \<times> Expression) list result"
where
  "dict_loop pe 0 pairs p = None"
| "dict_loop pe (Suc n) pairs p =
     (if \<not> match RBRACE p
      then pbind (pe p)
             (\<lambda>p k. pbind (consume COLON p)
                (\<lambda>p t. pbind (pe p)
                   (\<lambda>p v. dict_loop pe n (pairs @ [(k, v)])
                      (if match COMMA p then p_advance p else p))))
      else ok pairs p)"

definition parse_dict_literal ::
  "(Parser \<Rightarrow> Expression result) \<Rightarrow> nat \<Rightarrow> Parser \<Rightarrow> Expression result"
where
  "parse_dict_literal pe n p =
     pbind (consume LBRACE p)
       (\<lambda>p t. pbind (dict_loop pe n [] p)
          (\<lambda>p pairs. pbind (consume RBRACE p)
             (\<lambda>p t. ok (DictLiteral pairs) p)))"

definition parse_primary_expression ::
  "(Parser \<Rightarrow> Expression result) \<Rightarrow> nat \<Rightarrow> Parser \<Rightarrow> Expression result"
where
  "parse_primary_expression pe n p =
     (if match NUMBER p
      then (let v = tok_value (current_token p) in
            case (if CHR ''.'' \<in> set v then py_float v else py_int v) of
              Inl e \<Rightarrow> raise e
            | Inr x \<Rightarrow> ok (Literal x ''number'') (p_advance p))
      else if match STRING p
      then ok (Literal (PyStr (tok_value (current_token p))) ''string'') (p_advance p)
      else if match TRUE p then ok (Literal (PyBool True) ''boolean'') (p_advance p)
      else if match FALSE p then ok (Literal (PyBool False) ''boolean'') (p_advance p)
      else if match NONE p then ok (Literal PyNone ''none'') (p_advance p)
      else if match IDENTIFIER p
      then ok (Identifier (tok_value (current_token p))) (p_advance p)
      else if match LBRACKET p then parse_list_literal pe n p
      else if match LBRACE p then parse_dict_literal pe n p
      else if match LPAREN p
      then pbind (pe (p_advance p))
             (\<lambda>p expr. pbind (consume RPAREN p) (\<lambda>p t. ok expr p))
      else raise (ParseError (''Unexpected token: ''
             @ TokenType_str (tok_type (current_token p)))))"

text \<open>The \<open>while True\<close> of \<open>parse_postfix_expression\<close>.\<close>

fun postfix_loop ::
  "(Parser \<Rightarrow> Expression result) \<Rightarrow> nat \<Rightarrow> Expression \<Rightarrow> Parser \<Rightarrow> Expression result"
where
  "postfix_loop pe 0 expr p = None"
| "postfix_loop pe (Suc n) expr p =
     (if match LPAREN p
      then pbind (call_args_loop pe n [] (p_advance p))
             (\<lambda>p args. pbind (consume RPAREN p)
                (\<lambda>p t. case expr of
                     Identifier name \<Rightarrow> postfix_loop pe n (FunctionCall name args) p
                   | AttributeAccess obj attr \<Rightarrow>
                       postfix_loop pe n (MethodCall obj attr args) p
                   | _ \<Rightarrow> raise (ParseError ''Invalid function call'')))
      else if match DOT p
      then pbind (consume IDENTIFIER (p_advance p))
             (\<lambda>p t. postfix_loop pe n (AttributeAccess expr (tok_value t)) p)
      else if match LBRACKET p
      then pbind (pe (p_advance p))
             (\<lambda>p index. pbind (consume RBRACKET p)
                (\<lambda>p t. postfix_loop pe n (IndexAccess expr index) p))
      else ok expr p)"

definition parse_postfix_expression ::
  "(Parser \<Rightarrow> Expression result) \<Rightarrow> nat \<Rightarrow> Parser \<Rightarrow> Expression result"
where
  "parse_postfix_expression pe n p =
     pbind (parse_primary_expression pe n p) (\<lambda>p expr. postfix_loop pe n expr p)"

fun parse_unary_expression ::
  "(Parser \<Rightarrow> Expression result) \<Rightarrow> nat \<Rightarrow> Parser \<Rightarrow> Expression result"
where
  "parse_unary_expression pe 0 p = None"
| "parse_unary_expression pe (Suc n) p =
     (if match NOT p \<or> match MINUS p
      then (let op = tok_value (current_token p) in
            pbind (parse_unary_expression pe n (p_advance p))
              (\<lambda>p operand. ok (UnaryOp op operand) p))
      else parse_postfix_expression pe n p)"

fun parse_power_expression ::
  "(Parser \<Rightarrow> Expression result) \<Rightarrow> nat \<Rightarrow> Parser \<Rightarrow> Expression result"
where
  "parse_power_expression pe 0 p = None"
| "parse_power_expression pe (Suc n) p =
     pbind (parse_unary_expression pe n p)
       (\<lambda>p left.
          if match POWER p
          then (let op = tok_value (current_token p) in
                pbind (parse_power_expression pe n (p_advance p))
                  (\<lambda>p right. ok (BinaryOp left op right) p))
          else ok left p)"

fun multiplicative_loop ::
  "(Parser \<Rightarrow> Expression result) \<Rightarrow> nat \<Rightarrow> Expression \<Rightarrow> Parser \<Rightarrow> Expression result"
where
  "multiplicative_loop pe 0 left p = None"
| "multiplicative_loop pe (Suc n) left p =
     (if match MULTIPLY p \<or> match DIVIDE p \<or> match MODULO p
      then (let op = tok_value (current_token p) in
            pbind (parse_power_expression pe n (p_advance p))
              (\<lambda>p right. multiplicative_loop pe n (BinaryOp left op right) p))
      else ok left p)"

definition parse_multiplicative_expression ::
  "(Parser \<Rightarrow> Expression result) \<Rightarrow> nat \<Rightarrow> Parser \<Rightarrow> Expression result"
where
  "parse_multiplicative_expression pe n p =
     pbind (parse_power_expression pe n p) (\<lambda>p left. multiplicative_loop pe n left p)"

fun additive_loop ::
  "(Parser \<Rightarrow> Expression result) \<Rightarrow> nat \<Rightarrow> Expression \<Rightarrow> Parser \<Rightarrow> Expression result"
where
  "additive_loop pe 0 left p = None"
| "additive_loop pe (Suc n) left p =
     (if match PLUS p \<or> match MINUS p
      then (let op = tok_value (current_token p) in
            pbind (parse_multiplicative_expression pe n (p_advance p))
              (\<lambda>p right. additive_loop pe n (BinaryOp left op right) p))
      else ok left p)"

definition parse_additive_expression ::
  "(Parser \<Rightarrow> Expression result) \<Rightarrow> nat \<Rightarrow> Parser \<Rightarrow> Expression result"
where
  "parse_additive_expression pe n p =
     pbind (parse_multiplicative_expression pe n p) (\<lambda>p left. additive_loop pe n left p)"

fun comparison_loop ::
  "(Parser \<Rightarrow> Expression result) \<Rightarrow> nat \<Rightarrow> Expression \<Rightarrow> Parser \<Rightarrow> Expression result"
where
  "comparison_loop pe 0 left p = None"
| "comparison_loop pe (Suc n) left p =
     (if match LT p \<or> match LE p \<or> match GT p \<or> match GE p
      then (let op = tok_value (current_token p) in
            pbind (parse_additive_expression pe n (p_advance p))
              (\<lambda>p right. comparison_loop pe n (BinaryOp left op right) p))
      else ok left p)"

definition parse_comparison_expression ::
  "(Parser \<Rightarrow> Expression result) \<Rightarrow> nat \<Rightarrow> Parser \<Rightarrow> Expression result"
where
  "parse_comparison_expression pe n p =
     pbind (parse_additive_expression pe n p) (\<lambda>p left. comparison_loop pe n left p)"

fun equality_loop ::
  "(Parser \<Rightarrow> Expression result) \<Rightarrow> nat \<Rightarrow> Expression \<Rightarrow> Parser \<Rightarrow> Expression result"
where
  "equality_loop pe 0 left p = None"
| "equality_loop pe (Suc n) left p =
     (if match EQ p \<or> match NE p
      then (let op = tok_value (current_token p) in
            pbind (parse_comparison_expression pe n (p_advance p))
              (\<lambda>p right. equality_loop pe n (BinaryOp left op right) p))
      else ok left p)"

definition parse_equality_expression ::
  "(Parser \<Rightarrow> Expression result) \<Rightarrow> nat \<Rightarrow> Parser \<Rightarrow> Expression result"
where
  "parse_equality_expression pe n p =
     pbind (parse_comparison_expression pe n p) (\<lambda>p left. equality_loop pe n left p)"

fun and_loop ::
  "(Parser \<Rightarrow> Expression result) \<Rightarrow> nat \<Rightarrow> Expression \<Rightarrow> Parser \<Rightarrow> Expression result"
where
  "and_loop pe 0 left p = None"
| "and_loop pe (Suc n) left p =
     (if match AND p
      then (let op = tok_value (current_token p) in
            pbind (parse_equality_expression pe n (p_advance p))
              (\<lambda>p right. and_loop pe n (BinaryOp left op right) p))
      else ok left p)"

definition parse_and_expression ::
  "(Parser \<Rightarrow> Expression result) \<Rightarrow> nat \<Rightarrow> Parser \<Rightarrow> Expression result"
where
  "parse_and_expression pe n p =
     pbind (parse_equality_expression pe n p) (\<lambda>p left. and_loop pe n left p)"

fun or_loop ::
  "(Parser \<Rightarrow> Expression result) \<Rightarrow> nat \<Rightarrow> Expression \<Rightarrow> Parser \<Rightarrow> Expression result"
where
  "or_loop pe 0 left p = None"
| "or_loop pe (Suc n) left p =
     (if match OR p
      then (let op = tok_value (current_token p) in
            pbind (parse_and_expression pe n (p_advance p))
              (\<lambda>p right. or_loop pe n (BinaryOp left op right) p))
      else ok left p)"

definition parse_or_expression ::
  "(Parser \<Rightarrow> Expression result) \<Rightarrow> nat \<Rightarrow> Parser \<Rightarrow> Expression result"
where
  "parse_or_expression pe n p =
     pbind (parse_and_expression pe n p) (\<lambda>p left. or_loop pe n left p)"

fun parse_expression :: "nat \<Rightarrow> Parser \<Rightarrow> Expression result" where
  "parse_expression 0 p = None"
| "parse_expression (Suc n) p = parse_or_expression (parse_expression n) n p"

subsection \<open>Statements\<close>

text \<open>The parameter loop of \<open>parse_function_def\<close>.\<close>

fun params_loop :: "nat \<Rightarrow> string list \<Rightarrow> Parser \<Rightarrow> string list result" where
  "params_loop 0 params p = None"
| "params_loop (Suc n) params p =
     (if \<not> match RPAREN p
      then pbind (consume IDENTIFIER p)
             (\<lambda>p t. params_loop n (params @ [tok_value t])
                (if match COMMA p then p_advance p else p))
      else ok params p)"

text \<open>\<open>parse_statement\<close> returns an AST node or raises; its final \<open>return None\<close> is
  not reached, and a node is always true, so \<open>if stmt:\<close> always appends.\<close>

fun block_loop ::
  "(Parser \<Rightarrow> Statement result) \<Rightarrow> nat \<Rightarrow> Statement list \<Rightarrow> Parser \<Rightarrow> Statement list result"
where
  "block_loop ps 0 statements p = None"
| "block_loop ps (Suc n) statements p =
     (if \<not> match DEDENT p \<and> \<not> match EOF p
      then (if match NEWLINE p then block_loop ps n statements (p_advance p)
            else pbind (ps p) (\<lambda>p stmt. block_loop ps n (statements @ [stmt]) p))
      else ok statements (if match DEDENT p then p_advance p else p))"

definition parse_block ::
  "(Parser \<Rightarrow> Statement result) \<Rightarrow> nat \<Rightarrow> Parser \<Rightarrow> Statement list result"
where
  "parse_block ps n p =
     pbind (skip_newlines n p)
       (\<lambda>p u. if \<not> match INDENT p then pbind (ps p) (\<lambda>p stmt. ok [stmt] p)
               else pbind (consume INDENT p) (\<lambda>p t. block_loop ps n [] p))"

definition parse_function_def ::
  "(Parser \<Rightarrow> Statement result) \<Rightarrow> nat \<Rightarrow> Parser \<Rightarrow> Statement result"
where
  "parse_function_def ps n p =
     pbind (consume DEF p)
       (\<lambda>p t. pbind (consume IDENTIFIER p)
          (\<lambda>p name. pbind (consume LPAREN p)
             (\<lambda>p t. pbind (params_loop n [] p)
                (\<lambda>p params. pbind (consume RPAREN p)
                   (\<lambda>p t. pbind (consume COLON p)
                      (\<lambda>p t. pbind (parse_block ps n p)
                         (\<lambda>p body. ok (FunctionDef (tok_value name) params body) p)))))))"

fun class_loop ::
  "(Parser \<Rightarrow> Statement result) \<Rightarrow> nat \<Rightarrow> Statement list \<Rightarrow> Parser \<Rightarrow> Statement list result"
where
  "class_loop ps 0 body p = None"
| "class_loop ps (Suc n) body p =
     (if \<not> match DEDENT p \<and> \<not> match EOF p
      then (if match NEWLINE p then class_loop ps n body (p_advance p)
            else if match DEF p
            then pbind (parse_function_def ps n p)
                   (\<lambda>p method. class_loop ps n (body @ [method]) p)
            else class_loop ps n body (p_advance p))
      else ok body (if match DEDENT p then p_advance p else p))"

definition parse_class_def ::
  "(Parser \<Rightarrow> Statement result) \<Rightarrow> nat \<Rightarrow> Parser \<Rightarrow> Statement result"
where
  "parse_class_def ps n p =
     pbind (consume CLASS p)
       (\<lambda>p t. pbind (consume IDENTIFIER p)
          (\<lambda>p name. pbind (consume COLON p)
             (\<lambda>p t. pbind (skip_newlines n p)
                (\<lambda>p u. if \<not> match INDENT p then ok (ClassDef (tok_value name) []) p
                        else pbind (consume INDENT p)
                               (\<lambda>p t. pbind (class_loop ps n [] p)
                                  (\<lambda>p body. ok (ClassDef (tok_value name) body) p))))))"

fun parse_elif_chain ::
  "(Parser \<Rightarrow> Statement result) \<Rightarrow> nat \<Rightarrow> Parser \<Rightarrow> Statement result"
where
  "parse_elif_chain ps 0 p = None"
| "parse_elif_chain ps (Suc n) p =
     pbind (consume ELIF p)
       (\<lambda>p t. pbind (parse_expression n p)
          (\<lambda>p condition. pbind (consume COLON p)
             (\<lambda>p t. pbind (parse_block ps n p)
                (\<lambda>p then_body.
                   if match ELIF p
                   then pbind (parse_elif_chain ps n p)
                          (\<lambda>p elif_stmt.
                             ok (IfStatement condition then_body (Some [elif_stmt])) p)
                   else if match ELSE p
                   then pbind (consume COLON (p_advance p))
                          (\<lambda>p t. pbind (parse_block ps n p)
                             (\<lambda>p else_body.
                                ok (IfStatement condition then_body (Some else_body)) p))
                   else ok (IfStatement condition then_body None) p))))"

definition parse_if_statement ::
  "(Parser \<Rightarrow> Statement result) \<Rightarrow> nat \<Rightarrow> Parser \<Rightarrow> Statement result"
where
  "parse_if_statement ps n p =
     pbind (consume IF p)
       (\<lambda>p t. pbind (parse_expression n p)
          (\<lambda>p condition. pbind (consume COLON p)
             (\<lambda>p t. pbind (parse_block ps n p)
                (\<lambda>p then_body.
                   if match ELIF p
                   then pbind (parse_elif_chain ps n p)
                          (\<lambda>p elif_stmt.
                             ok (IfStatement condition then_body (Some [elif_stmt])) p)
                   else if match ELSE p
                   then pbind (consume COLON (p_advance p))
                          (\<lambda>p t. pbind (parse_block ps n p)
                             (\<lambda>p else_body.
                                ok (IfStatement condition then_body (Some else_body)) p))
                   else ok (IfStatement condition then_body None) p))))"

definition parse_for_statement ::
  "(Parser \<Rightarrow> Statement result) \<Rightarrow> nat \<Rightarrow> Parser \<Rightarrow> Statement result"
where
  "parse_for_statement ps n p =
     pbind (consume FOR p)
       (\<lambda>p t. pbind (consume IDENTIFIER p)
          (\<lambda>p target. pbind (consume IN p)
             (\<lambda>p t. pbind (parse_expression n p)
                (\<lambda>p iterable. pbind (consume COLON p)
                   (\<lambda>p t. pbind (parse_block ps n p)
                      (\<lambda>p body. ok (ForStatement (tok_value target) iterable body) p))))))"

definition parse_while_statement ::
  "(Parser \<Rightarrow> Statement result) \<Rightarrow> nat \<Rightarrow> Parser \<Rightarrow> Statement result"
where
  "parse_while_statement ps n p =
     pbind (consume WHILE p)
       (\<lambda>p t. pbind (parse_expression n p)
          (\<lambda>p condition. pbind (consume COLON p)
             (\<lambda>p t. pbind (parse_block ps n p)
                (\<lambda>p body. ok (WhileStatement condition body) p))))"

definition parse_return_statement :: "nat \<Rightarrow> Parser \<Rightarrow> Statement result" where
  "parse_return_statement n p =
     pbind (consume RETURN p)
       (\<lambda>p t. if \<not> match NEWLINE p \<and> \<not> match EOF p
               then pbind (parse_expression n p)
                      (\<lambda>p v. ok (ReturnStatement (Some v)) p)
               else ok (ReturnStatement None) p)"

definition parse_assignment :: "nat \<Rightarrow> Parser \<Rightarrow> Statement result" where
  "parse_assignment n p =
     pbind (consume IDENTIFIER p)
       (\<lambda>p target. pbind (consume ASSIGN p)
          (\<lambda>p t. pbind (parse_expression n p)
             (\<lambda>p v. ok (AssignStatement (tok_value target) v) p)))"

fun parse_statement :: "nat \<Rightarrow> Parser \<Rightarrow> Statement result" where
  "parse_statement 0 p = None"
| "parse_statement (Suc n) p =
     pbind (skip_newlines n p)
       (\<lambda>p u.
          if match DEF p then parse_function_def (parse_statement n) n p
          else if match CLASS p then parse_class_def (parse_statement n) n p
          else if match IF p then parse_if_statement (parse_statement n) n p
          else if match FOR p then parse_for_statement (parse_statement n) n p
          else if match WHILE p then parse_while_statement (parse_statement n) n p
          else if match RETURN p then parse_return_statement n p
          else if match IDENTIFIER p \<and> tok_type (peek_token p) = ASSIGN
          then parse_assignment n p
          else pbind (parse_expression n p) (\<lambda>p expr. ok (ExpressionStatement expr) p))"

text \<open>The loop of \<open>parse\<close>.\<close>

fun parse_loop :: "nat \<Rightarrow> Statement list \<Rightarrow> Parser \<Rightarrow> Statement list result" where
  "parse_loop 0 statements p = None"
| "parse_loop (Suc n) statements p =
     (if \<not> match EOF p
      then (if match NEWLINE p then parse_loop n statements (p_advance p)
            else pbind (parse_statement n p)
                   (\<lambda>p stmt. parse_loop n (statements @ [stmt]) p))
      else ok statements p)"

text \<open>\<open>Parser(tokens).parse()\<close> with fuel \<open>n\<close>. The first thing \<open>parse\<close> does is read the
  current token, which raises IndexError on an empty token list.\<close>

definition parse_fuel :: "nat \<Rightarrow> Token list \<Rightarrow> (exc + Program) option" where
  "parse_fuel n tokens =
     (if tokens = [] then Some (Inl (IndexError ''list index out of range''))
      else
        (case pbind (skip_newlines n (Parser_init tokens)) (\<lambda>p u. parse_loop n [] p) of
           None \<Rightarrow> None
         | Some (Inl e) \<Rightarrow> Some (Inl e)
         | Some (Inr (p, statements)) \<Rightarrow> Some (Inr (Program statements))))"

text \<open>The parser of the source has no fuel. Its outcome is the outcome at a fuel that
  suffices; \<open>parse_from\<close> tries 64, 129, 259, ... and is \<open>None\<close> when no fuel suffices,
  that is, when the source's parser does not return.\<close>

partial_function (option) parse_from :: "nat \<Rightarrow> Token list \<Rightarrow> (exc + Program) option" where
  "parse_from n tokens =
     (case parse_fuel n tokens of
        None \<Rightarrow> parse_from (2 * n + 1) tokens
      | Some r \<Rightarrow> Some r)"

declare parse_from.simps [code]

definition parse :: "Token list \<Rightarrow> (exc + Program) option" where
  "parse tokens = parse_from 64 tokens"

section \<open>semantic_analyzer.py\<close>

record Symbol =
  sym_name :: string
  sym_type :: string
  sym_scope :: string

text \<open>A scope is a Python dictionary from names to symbols, kept as the list of its
  items: \<open>d[k] = v\<close> is \<open>AList.update k v d\<close> and \<open>k in d\<close> asks \<open>map_of d k\<close>.
  \<open>current_scope\<close> is the
  index of the last scope: the constructor makes one scope with index 0, and
  \<open>enter_scope\<close> and \<open>exit_scope\<close> move both together, so \<open>self.scopes[self.current_scope]\<close>
  is always in range.\<close>

record SymbolTable =
  st_scopes :: "(string \<times> Symbol) list list"
  st_current_scope :: nat

definition SymbolTable_init :: SymbolTable where
  "SymbolTable_init = \<lparr>st_scopes = [[]], st_current_scope = 0\<rparr>"

definition enter_scope :: "SymbolTable \<Rightarrow> SymbolTable" where
  "enter_scope t = t\<lparr>st_scopes := st_scopes t @ [[]],
     st_current_scope := st_current_scope t + 1\<rparr>"

definition exit_scope :: "SymbolTable \<Rightarrow> SymbolTable" where
  "exit_scope t =
     (if st_current_scope t > 0
      then t\<lparr>st_scopes := butlast (st_scopes t), st_current_scope := st_current_scope t - 1\<rparr>
      else t)"

definition declare_symbol :: "string \<Rightarrow> string \<Rightarrow> SymbolTable \<Rightarrow> SymbolTable" where
  "declare_symbol name symbol_type t =
     (let scope_name = ''scope_'' @ str_nat (st_current_scope t);
          symbol = \<lparr>sym_name = name, sym_type = symbol_type, sym_scope = scope_name\<rparr>
      in t\<lparr>st_scopes := (st_scopes t)[st_current_scope t :=
              AList.update name symbol (st_scopes t ! st_current_scope t)]\<rparr>)"

text \<open>\<open>for i in range(self.current_scope, -1, -1)\<close>: the innermost scope first.\<close>

fun lookup_from :: "SymbolTable \<Rightarrow> string \<Rightarrow> nat \<Rightarrow> Symbol option" where
  "lookup_from t name 0 = map_of (st_scopes t ! 0) name"
| "lookup_from t name (Suc i) =
     (case map_of (st_scopes t ! Suc i) name of
        Some symbol \<Rightarrow> Some symbol
      | None \<Rightarrow> lookup_from t name i)"

definition lookup :: "SymbolTable \<Rightarrow> string \<Rightarrow> Symbol option" where
  "lookup t name = lookup_from t name (st_current_scope t)"

definition is_declared_in_current_scope :: "SymbolTable \<Rightarrow> string \<Rightarrow> bool" where
  "is_declared_in_current_scope t name =
     (map_of (st_scopes t ! st_current_scope t) name \<noteq> None)"

record SemanticAnalyzer =
  sa_symbol_table :: SymbolTable
  sa_errors :: "string list"
  sa_current_function :: "string option"

definition builtin_functions :: "string list" where
  "builtin_functions =
     [''print'', ''len'', ''range'', ''str'', ''int'', ''float'', ''bool'', ''list'', ''dict'']"

definition SemanticAnalyzer_init :: SemanticAnalyzer where
  "SemanticAnalyzer_init = \<lparr>sa_symbol_table = SymbolTable_init, sa_errors = [],
     sa_current_function = None\<rparr>"

definition sa_error :: "string \<Rightarrow> SemanticAnalyzer \<Rightarrow> SemanticAnalyzer" where
  "sa_error message a = a\<lparr>sa_errors := sa_errors a @ [message]\<rparr>"

definition sa_declare :: "string \<Rightarrow> string \<Rightarrow> SemanticAnalyzer \<Rightarrow> SemanticAnalyzer" where
  "sa_declare name symbol_type a =
     a\<lparr>sa_symbol_table := declare_symbol name symbol_type (sa_symbol_table a)\<rparr>"

text \<open>The check that opens \<open>visit_function_call\<close>: one diagnostic when the name is
  not visible, another when it is visible and is neither a function nor a class.\<close>

definition check_callee :: "string \<Rightarrow> SemanticAnalyzer \<Rightarrow> SemanticAnalyzer" where
  "check_callee name a =
     (case lookup (sa_symbol_table a) name of
        None \<Rightarrow> sa_error (''Undefined function '' @ [CHR 0x27] @ name @ [CHR 0x27]) a
      | Some symbol \<Rightarrow>
          if sym_type symbol \<noteq> ''function'' \<and> sym_type symbol \<noteq> ''class''
          then sa_error ([CHR 0x27] @ name @ [CHR 0x27] @ '' is not a function or class'') a
          else a)"

text \<open>\<open>visit_expression\<close> dispatches on the class of the node; each equation is the
  visit method of that class.\<close>

fun sa_visit_expression :: "Expression \<Rightarrow> SemanticAnalyzer \<Rightarrow> SemanticAnalyzer" where
  "sa_visit_expression (BinaryOp left op right) a =
     sa_visit_expression right (sa_visit_expression left a)"
| "sa_visit_expression (UnaryOp op operand) a = sa_visit_expression operand a"
| "sa_visit_expression (FunctionCall name args) a =
     foldl (\<lambda>a arg. sa_visit_expression arg a) (check_callee name a) args"
| "sa_visit_expression (MethodCall obj method args) a =
     foldl (\<lambda>a arg. sa_visit_expression arg a) (sa_visit_expression obj a) args"
| "sa_visit_expression (Identifier name) a =
     (case lookup (sa_symbol_table a) name of
        None \<Rightarrow> sa_error (''Undefined variable '' @ [CHR 0x27] @ name @ [CHR 0x27]) a
      | Some symbol \<Rightarrow> a)"
| "sa_visit_expression (Literal v ty) a = a"
| "sa_visit_expression (ListLiteral elements) a =
     foldl (\<lambda>a element. sa_visit_expression element a) a elements"
| "sa_visit_expression (DictLiteral pairs) a =
     foldl (\<lambda>a kv. sa_visit_expression (snd kv) (sa_visit_expression (fst kv) a)) a pairs"
| "sa_visit_expression (AttributeAccess obj attribute) a = sa_visit_expression obj a"
| "sa_visit_expression (IndexAccess obj index) a =
     sa_visit_expression index (sa_visit_expression obj a)"

definition declare_param :: "string \<Rightarrow> SemanticAnalyzer \<Rightarrow> SemanticAnalyzer" where
  "declare_param param a =
     sa_declare param ''variable''
       (if is_declared_in_current_scope (sa_symbol_table a) param
        then sa_error (''Parameter '' @ [CHR 0x27] @ param @ [CHR 0x27] @ '' already declared'') a
        else a)"

definition sa_enter_scope :: "SemanticAnalyzer \<Rightarrow> SemanticAnalyzer" where
  "sa_enter_scope a = a\<lparr>sa_symbol_table := enter_scope (sa_symbol_table a)\<rparr>"

definition sa_exit_scope :: "SemanticAnalyzer \<Rightarrow> SemanticAnalyzer" where
  "sa_exit_scope a = a\<lparr>sa_symbol_table := exit_scope (sa_symbol_table a)\<rparr>"

fun sa_visit_statement :: "Statement \<Rightarrow> SemanticAnalyzer \<Rightarrow> SemanticAnalyzer" where
  "sa_visit_statement (FunctionDef name params body) a =
     (let a1 = (if is_declared_in_current_scope (sa_symbol_table a) name
                then sa_error (''Function '' @ [CHR 0x27] @ name @ [CHR 0x27]
                       @ '' already declared in current scope'') a
                else a);
          a2 = sa_declare name ''function'' a1;
          a3 = sa_enter_scope a2;
          old_function = sa_current_function a3;
          a4 = a3\<lparr>sa_current_function := Some name\<rparr>;
          a5 = foldl (\<lambda>a param. declare_param param a) a4 params;
          a6 = foldl (\<lambda>a stmt. sa_visit_statement stmt a) a5 body
      in sa_exit_scope (a6\<lparr>sa_current_function := old_function\<rparr>))"
| "sa_visit_statement (ClassDef name body) a =
     (let a1 = (if is_declared_in_current_scope (sa_symbol_table a) name
                then sa_error (''Class '' @ [CHR 0x27] @ name @ [CHR 0x27]
                       @ '' already declared in current scope'') a
                else a);
          a2 = sa_declare name ''class'' a1;
          a3 = sa_enter_scope a2;
          a4 = foldl (\<lambda>a stmt. sa_visit_statement stmt a) a3 body
      in sa_exit_scope a4)"
| "sa_visit_statement (IfStatement condition then_body else_body) a =
     (let a1 = sa_visit_expression condition a;
          a2 = foldl (\<lambda>a stmt. sa_visit_statement stmt a) a1 then_body
      in case else_body of
           None \<Rightarrow> a2
         | Some stmts \<Rightarrow> foldl (\<lambda>a stmt. sa_visit_statement stmt a) a2 stmts)"
| "sa_visit_statement (ForStatement target iterable body) a =
     (let a1 = sa_visit_expression iterable a;
          a2 = sa_declare target ''variable'' (sa_enter_scope a1);
          a3 = foldl (\<lambda>a stmt. sa_visit_statement stmt a) a2 body
      in sa_exit_scope a3)"
| "sa_visit_statement (WhileStatement condition body) a =
     foldl (\<lambda>a stmt. sa_visit_statement stmt a) (sa_visit_expression condition a) body"
| "sa_visit_statement (ReturnStatement v) a =
     (let a1 = (if sa_current_function a = None
                then sa_error ''Return statement outside function'' a else a)
      in case v of None \<Rightarrow> a1 | Some e \<Rightarrow> sa_visit_expression e a1)"
| "sa_visit_statement (AssignStatement target v) a =
     (let a1 = sa_visit_expression v a
      in if lookup (sa_symbol_table a1) target = None
         then sa_declare target ''variable'' a1 else a1)"
| "sa_visit_statement (ExpressionStatement e) a = sa_visit_expression e a"

fun sa_visit_program :: "Program \<Rightarrow> SemanticAnalyzer \<Rightarrow> SemanticAnalyzer" where
  "sa_visit_program (Program statements) a =
     foldl (\<lambda>a stmt. sa_visit_statement stmt a) a statements"

text \<open>The loop \<open>for func in self.builtin_functions\<close> of \<open>analyze\<close>. The names are a
  Python set; they are all different, so the order of the declarations does not
  change the table.\<close>

definition declare_builtins :: "SemanticAnalyzer \<Rightarrow> SemanticAnalyzer" where
  "declare_builtins a = foldl (\<lambda>a func. sa_declare func ''function'' a) a builtin_functions"

text \<open>\<open>analyze\<close> empties \<open>self.errors\<close>, declares the built-in functions in the current
  scope and walks the program. It returns the diagnostics; the analyzer keeps its
  symbol table.\<close>

definition analyze :: "Program \<Rightarrow> SemanticAnalyzer \<Rightarrow> string list \<times> SemanticAnalyzer" where
  "analyze ast a =
     (let a1 = a\<lparr>sa_errors := []\<rparr>;
          a2 = declare_builtins a1;
          a3 = sa_visit_program ast a2
      in (sa_errors a3, a3))"

section \<open>code_generator.py\<close>

record CodeGenerator =
  cg_indent_level :: nat
  cg_output :: "string list"

definition CodeGenerator_init :: CodeGenerator where
  "CodeGenerator_init = \<lparr>cg_indent_level = 0, cg_output = []\<rparr>"

definition indent :: "CodeGenerator \<Rightarrow> string" where
  "indent g = concat (replicate (cg_indent_level g) ''  '')"

definition emit :: "string \<Rightarrow> CodeGenerator \<Rightarrow> CodeGenerator" where
  "emit code g = g\<lparr>cg_output := cg_output g @ [indent g @ code]\<rparr>"

definition indent_more :: "CodeGenerator \<Rightarrow> CodeGenerator" where
  "indent_more g = g\<lparr>cg_indent_level := cg_indent_level g + 1\<rparr>"

definition indent_less :: "CodeGenerator \<Rightarrow> CodeGenerator" where
  "indent_less g = g\<lparr>cg_indent_level := cg_indent_level g - 1\<rparr>"

text \<open>\<open>str(v)\<close> and the truth value of a literal's value. \<open>str\<close> of a float is
  floating-point formatting, which the model takes as the parameter \<open>float_repr\<close>
  (from the lexeme to the text Python prints); a float is false when it prints
  as zero.\<close>

fun py_str :: "(string \<Rightarrow> string) \<Rightarrow> pyval \<Rightarrow> string" where
  "py_str float_repr (PyInt i) = str_int i"
| "py_str float_repr (PyFloat x) = float_repr x"
| "py_str float_repr (PyStr s) = s"
| "py_str float_repr (PyBool b) = (if b then ''True'' else ''False'')"
| "py_str float_repr PyNone = ''None''"

fun py_truth :: "(string \<Rightarrow> string) \<Rightarrow> pyval \<Rightarrow> bool" where
  "py_truth float_repr (PyInt i) = (i \<noteq> 0)"
| "py_truth float_repr (PyFloat x) = (float_repr x \<noteq> ''0.0'' \<and> float_repr x \<noteq> ''-0.0'')"
| "py_truth float_repr (PyStr s) = (s \<noteq> [])"
| "py_truth float_repr (PyBool b) = b"
| "py_truth float_repr PyNone = False"

definition visit_literal :: "(string \<Rightarrow> string) \<Rightarrow> pyval \<Rightarrow> string \<Rightarrow> string" where
  "visit_literal float_repr v ty =
     (if ty = ''string'' then [CHR 0x22] @ py_str float_repr v @ [CHR 0x22]
      else if ty = ''number'' then py_str float_repr v
      else if ty = ''boolean'' then (if py_truth float_repr v then ''true'' else ''false'')
      else if ty = ''none'' then ''null''
      else py_str float_repr v)"

definition generate_range_function :: "string list \<Rightarrow> string" where
  "generate_range_function args =
     (case args of
        [a] \<Rightarrow> ''Array.from({length: '' @ a @ ''}, (_, i) => i)''
      | [a, b] \<Rightarrow> ''Array.from({length: '' @ b @ '' - '' @ a @ ''}, (_, i) => i + '' @ a @ '')''
      | [start, stop, step] \<Rightarrow>
          ''Array.from({length: Math.ceil(('' @ stop @ '' - '' @ start @ '') / '' @ step
            @ '')}, (_, i) => '' @ start @ '' + i * '' @ step @ '')''
      | _ \<Rightarrow> ''[]'')"

text \<open>The table \<open>builtin_map\<close> of \<open>visit_function_call\<close> and what follows it, on the
  rendered arguments. An entry is a target name or a function of the arguments.
  \<open>node.name[0]\<close> reads the first character of the name; the lexer makes no empty
  identifier.\<close>

definition lower_call :: "string \<Rightarrow> string list \<Rightarrow> string" where
  "lower_call name args =
     (let args_str = join '', '' args in
      if name = ''print'' then ''console.log('' @ args_str @ '')''
      else if name = ''len'' then (if args \<noteq> [] then hd args @ ''.length'' else ''0'')
      else if name = ''str'' then ''String('' @ args_str @ '')''
      else if name = ''int'' then ''parseInt('' @ args_str @ '')''
      else if name = ''float'' then ''parseFloat('' @ args_str @ '')''
      else if name = ''bool'' then ''Boolean('' @ args_str @ '')''
      else if name = ''list'' then (if args \<noteq> [] then ''['' @ join '', '' args @ '']'' else ''[]'')
      else if name = ''dict'' then (if args = [] then ''{}'' else ''{'' @ hd args @ ''}'')
      else if name = ''range'' then generate_range_function args
      else if name \<noteq> [] \<and> isupper (hd name) then ''new '' @ name @ ''('' @ args_str @ '')''
      else name @ ''('' @ args_str @ '')'')"

definition binary_operator :: "string \<Rightarrow> string" where
  "binary_operator op =
     (if op = ''and'' then ''&&'' else if op = ''or'' then ''||''
      else if op = ''**'' then ''**'' else if op = ''//'' then ''Math.floor'' else op)"

definition unary_operator :: "string \<Rightarrow> string" where
  "unary_operator op = (if op = ''not'' then ''!'' else op)"

fun cg_visit_expression :: "(string \<Rightarrow> string) \<Rightarrow> Expression \<Rightarrow> string" where
  "cg_visit_expression fr (BinaryOp left operator right) =
     (let l = cg_visit_expression fr left; r = cg_visit_expression fr right;
          op = binary_operator operator
      in if operator = ''//'' then ''Math.floor('' @ l @ '' / '' @ r @ '')''
         else ''('' @ l @ '' '' @ op @ '' '' @ r @ '')'')"
| "cg_visit_expression fr (UnaryOp operator operand) =
     unary_operator operator @ cg_visit_expression fr operand"
| "cg_visit_expression fr (FunctionCall name args) =
     lower_call name (map (\<lambda>arg. cg_visit_expression fr arg) args)"
| "cg_visit_expression fr (MethodCall obj method args) =
     cg_visit_expression fr obj @ ''.'' @ method @ ''(''
       @ join '', '' (map (\<lambda>arg. cg_visit_expression fr arg) args) @ '')''"
| "cg_visit_expression fr (Identifier name) = name"
| "cg_visit_expression fr (Literal v ty) = visit_literal fr v ty"
| "cg_visit_expression fr (ListLiteral elements) =
     ''['' @ join '', '' (map (\<lambda>elem. cg_visit_expression fr elem) elements) @ '']''"
| "cg_visit_expression fr (DictLiteral pairs) =
     ''{'' @ join '', ''
        (map (\<lambda>kv. cg_visit_expression fr (fst kv) @ '': '' @ cg_visit_expression fr (snd kv))
           pairs) @ ''}''"
| "cg_visit_expression fr (AttributeAccess obj attribute) =
     cg_visit_expression fr obj @ ''.'' @ attribute"
| "cg_visit_expression fr (IndexAccess obj index) =
     cg_visit_expression fr obj @ ''['' @ cg_visit_expression fr index @ '']''"

text \<open>\<open>if node.else_body:\<close> is false for \<open>None\<close> and for the empty list.\<close>

fun cg_visit_statement :: "(string \<Rightarrow> string) \<Rightarrow> Statement \<Rightarrow> CodeGenerator \<Rightarrow> CodeGenerator"
where
  "cg_visit_statement fr (FunctionDef name params body) g =
     (let g1 = indent_more (emit (''function '' @ name @ ''('' @ join '', '' params @ '') {'') g);
          g2 = foldl (\<lambda>g stmt. cg_visit_statement fr stmt g) g1 body
      in emit ''}'' (indent_less g2))"
| "cg_visit_statement fr (ClassDef name body) g =
     (let g1 = indent_more (emit (''class '' @ name @ '' {'') g);
          g2 = foldl (\<lambda>g stmt.
                 case stmt of
                   FunctionDef mname mparams mbody \<Rightarrow>
                     (let h1 = indent_more (emit (mname @ ''('' @ join '', '' mparams @ '') {'') g);
                          h2 = foldl (\<lambda>g method_stmt. cg_visit_statement fr method_stmt g) h1 mbody
                      in emit ''}'' (indent_less h2))
                 | _ \<Rightarrow> cg_visit_statement fr stmt g) g1 body
      in emit ''}'' (indent_less g2))"
| "cg_visit_statement fr (IfStatement condition then_body else_body) g =
     (let g1 = indent_more (emit (''if ('' @ cg_visit_expression fr condition @ '') {'') g);
          g2 = indent_less (foldl (\<lambda>g stmt. cg_visit_statement fr stmt g) g1 then_body);
          g3 = (case else_body of
                  None \<Rightarrow> g2
                | Some stmts \<Rightarrow>
                    if stmts = [] then g2
                    else indent_less (foldl (\<lambda>g stmt. cg_visit_statement fr stmt g)
                           (indent_more (emit ''} else {'' g2)) stmts))
      in emit ''}'' g3)"
| "cg_visit_statement fr (ForStatement target iterable body) g =
     (let g1 = indent_more (emit (''for (const '' @ target @ '' of ''
                 @ cg_visit_expression fr iterable @ '') {'') g);
          g2 = foldl (\<lambda>g stmt. cg_visit_statement fr stmt g) g1 body
      in emit ''}'' (indent_less g2))"
| "cg_visit_statement fr (WhileStatement condition body) g =
     (let g1 = indent_more (emit (''while ('' @ cg_visit_expression fr condition @ '') {'') g);
          g2 = foldl (\<lambda>g stmt. cg_visit_statement fr stmt g) g1 body
      in emit ''}'' (indent_less g2))"
| "cg_visit_statement fr (ReturnStatement v) g =
     (case v of
        Some e \<Rightarrow> emit (''return '' @ cg_visit_expression fr e @ '';'') g
      | None \<Rightarrow> emit ''return;'' g)"
| "cg_visit_statement fr (AssignStatement target v) g =
     emit (''let '' @ target @ '' = '' @ cg_visit_expression fr v @ '';'') g"
| "cg_visit_statement fr (ExpressionStatement e) g =
     emit (cg_visit_expression fr e @ '';'') g"

fun is_FunctionDef :: "Statement \<Rightarrow> bool" where
  "is_FunctionDef (FunctionDef name params body) = True"
| "is_FunctionDef stmt = False"

fun cg_visit_program :: "(string \<Rightarrow> string) \<Rightarrow> Program \<Rightarrow> CodeGenerator \<Rightarrow> CodeGenerator" where
  "cg_visit_program fr (Program statements) g =
     foldl (\<lambda>g stmt. let g1 = cg_visit_statement fr stmt g
                     in if is_FunctionDef stmt then emit [] g1 else g1) g statements"

definition generate ::
  "(string \<Rightarrow> string) \<Rightarrow> Program \<Rightarrow> CodeGenerator \<Rightarrow> string \<times> CodeGenerator"
where
  "generate fr ast g =
     (let g1 = cg_visit_program fr ast (g\<lparr>cg_output := []\<rparr>)
      in (join [CHR ''\<newline>''] (cg_output g1), g1))"

section \<open>compiler.py\<close>

text \<open>The compiler object keeps one analyzer and one generator for all its runs; the
  lexer and the parser are made anew in each run. The progress lines \<open>compile\<close> prints
  are not part of its result.\<close>

record PythonToJSCompiler =
  semantic_analyzer :: SemanticAnalyzer
  code_generator :: CodeGenerator

definition PythonToJSCompiler_init :: PythonToJSCompiler where
  "PythonToJSCompiler_init = \<lparr>semantic_analyzer = SemanticAnalyzer_init,
     code_generator = CodeGenerator_init\<rparr>"

text \<open>The message stems of \<open>compile\<close>; \<open>0xE1\<close> and \<open>0xF3\<close> are the code points of the
  accented \<open>a\<close> and \<open>o\<close> in the Spanish words.\<close>

definition msg_sintaxis :: string where
  "msg_sintaxis = ''Error de sintaxis: ''"

definition msg_semanticos :: string where
  "msg_semanticos = ''Errores sem'' @ [CHR 0xE1] @ ''nticos encontrados:'' @ [CHR ''\<newline>'']"

definition msg_compilacion :: string where
  "msg_compilacion = ''Error de compilaci'' @ [CHR 0xF3] @ ''n: ''"

text \<open>The body of the \<open>try\<close>: \<open>None\<close> when the lexer or the parser does not return,
  otherwise the exception raised or the text returned, and the compiler after it.\<close>

definition compile_try ::
  "(string \<Rightarrow> string) \<Rightarrow> PythonToJSCompiler \<Rightarrow> string
     \<Rightarrow> ((exc + string) \<times> PythonToJSCompiler) option"
where
  "compile_try fr c python_code =
     (case tokenize python_code of
        None \<Rightarrow> None
      | Some tokens \<Rightarrow>
          (case parse tokens of
             None \<Rightarrow> None
           | Some (Inl e) \<Rightarrow> Some (Inl e, c)
           | Some (Inr ast) \<Rightarrow>
               (let analyzed = analyze ast (semantic_analyzer c);
                    errors = fst analyzed;
                    c1 = c\<lparr>semantic_analyzer := snd analyzed\<rparr>
                in if errors \<noteq> []
                   then Some (Inl (CompilerError
                          (msg_semanticos @ join [CHR ''\<newline>''] errors)), c1)
                   else (let generated = generate fr ast (code_generator c1);
                             javascript_code = fst generated
                         in Some (Inr javascript_code,
                                  c1\<lparr>code_generator := snd generated\<rparr>)))))"

text \<open>The two handlers. \<open>except ParseError\<close> comes first; \<open>except Exception\<close> catches
  every other exception raised in the body, the \<open>CompilerError\<close> of the semantic
  stage included. The result is the message of the \<open>CompilerError\<close> that \<open>compile\<close>
  raises (\<open>Inl\<close>) or the target text it returns (\<open>Inr\<close>).\<close>

definition compile_except :: "exc + string \<Rightarrow> string + string" where
  "compile_except r =
     (case r of
        Inr javascript_code \<Rightarrow> Inr javascript_code
      | Inl (ParseError m) \<Rightarrow> Inl (msg_sintaxis @ m)
      | Inl e \<Rightarrow> Inl (msg_compilacion @ exc_str e))"

definition compile ::
  "(string \<Rightarrow> string) \<Rightarrow> PythonToJSCompiler \<Rightarrow> string
     \<Rightarrow> ((string + string) \<times> PythonToJSCompiler) option"
where
  "compile fr c python_code =
     map_option (\<lambda>rc. (compile_except (fst rc), snd rc)) (compile_try fr c python_code)"

text \<open>Two runs of \<open>compile\<close> on one compiler object, and one run on a new object.\<close>

definition compile_twice ::
  "(string \<Rightarrow> string) \<Rightarrow> string \<Rightarrow> string \<Rightarrow> ((string + string) \<times> (string + string)) option"
where
  "compile_twice fr first second =
     (case compile fr PythonToJSCompiler_init first of
        None \<Rightarrow> None
      | Some run1 \<Rightarrow>
          (case compile fr (snd run1) second of
             None \<Rightarrow> None
           | Some run2 \<Rightarrow> Some (fst run1, fst run2)))"

definition compile_new :: "(string \<Rightarrow> string) \<Rightarrow> string \<Rightarrow> (string + string) option" where
  "compile_new fr python_code = map_option fst (compile fr PythonToJSCompiler_init python_code)"

text \<open>The first two stages of \<open>compile\<close>: the lexer, then the parser on its tokens.\<close>

definition parse_text :: "string \<Rightarrow> (exc + Program) option" where
  "parse_text python_code =
     (case tokenize python_code of None \<Rightarrow> None | Some tokens \<Rightarrow> parse tokens)"

section \<open>Auxiliary notions for the properties\<close>



text \<open>The indentation stack of the lexer is in order when it is not empty and its
  bottom element is the column 0 that the constructor pushed.\<close>

definition stack_ok :: "Lexer \<Rightarrow> bool" where
  "stack_ok l = (lx_indent_stack l \<noteq> [] \<and> hd (lx_indent_stack l) = 0)"

text \<open>Notions for the tokens \<open>+=\<close> and \<open>-=\<close>. A token is augmented when it is one of the
  two; the parser is at an augmented token when its current token is one; and
  \<open>unexpected_token\<close> is the exception that \<open>parse_primary_expression\<close> raises at a token
  that starts no expression.\<close>

definition augmented :: "Token \<Rightarrow> bool" where
  "augmented t = (tok_type t = PLUS_ASSIGN \<or> tok_type t = MINUS_ASSIGN)"



text \<open>The invariant of a successful run of the parser on the token list \<open>ts\<close>: the
  cursor is inside the list and no token before it is augmented. A parser method
  preserves it when it holds after every call that returns. \<open>plain\<close> are the token
  types the methods ask for before they move the cursor.\<close>

definition clean_upto :: "Token list \<Rightarrow> Parser \<Rightarrow> bool" where
  "clean_upto ts p =
     (p_tokens p = ts \<and> p_pos p < length ts \<and> (\<forall>i < p_pos p. \<not> augmented (ts ! i)))"



text \<open>The tokens the main loop of the lexer collects hold no EOF.\<close>

definition no_eof :: "Token list \<Rightarrow> bool" where
  "no_eof tokens = (\<forall>t\<in>set tokens. tok_type t \<noteq> EOF)"

text \<open>Example inputs: the parser at the start of a two-branch chain, a parser whose
  current token is \<open>+=\<close>, one whose current token is the number \<open>1.2.3\<close>, and an
  analyzer that knows the built-in functions and a variable \<open>x\<close>.\<close>

definition elif_parser :: Parser where
  "elif_parser = Parser_init (the (tokenize
     ''if a:\<newline>    b\<newline>elif c:\<newline>    d\<newline>''))"


definition dotted_number_parser :: Parser where
  "dotted_number_parser = Parser_init [Tok NUMBER ''1.2.3'' 1 1, Tok EOF [] 1 6]"




section \<open>Properties\<close>

subsection \<open>Two runs on one compiler object\<close>

text \<open>
  Claim C1. \<open>compile\<close> should give the same result when it is run twice on the same
  source with the same compiler object. It does not: \<open>analyze\<close> empties the list of
  diagnostics at the start of a run but keeps the symbol table of the run before,
  so a function defined in the first run is a redeclaration in the second. For the
  source \<open>def f(): return 1\<close> (on two lines) the first run returns the target text
  and the second raises a \<open>CompilerError\<close>.
\<close>

theorem compile_twice_redeclares:
  "compile_twice fr ''def f():\<newline>    return 1\<newline>'' ''def f():\<newline>    return 1\<newline>'' =
     Some (Inr (''function f() {'' @ [CHR ''\<newline>''] @ ''  return 1;'' @ [CHR ''\<newline>'']
              @ ''}'' @ [CHR ''\<newline>'']),
           Inl (msg_compilacion @ msg_semanticos @ ''Function '' @ [CHR 0x27] @ ''f''
              @ [CHR 0x27] @ '' already declared in current scope''))"
  by code_simp

subsection \<open>The message of a semantic failure\<close>

text \<open>
  Claim C2. When the analyzer returns diagnostics, \<open>compile\<close> builds the message
  \<open>Errores semanticos encontrados:\<close>, a newline and the diagnostics joined by newlines,
  and raises it as a \<open>CompilerError\<close> inside the \<open>try\<close>. The handler \<open>except Exception\<close>
  catches that exception too and raises a new one whose message starts with
  \<open>Error de compilacion: \<close>. So for \<open>print(unknown)\<close> the message of the failure
  contains \<open>Undefined variable 'unknown'\<close> but does not start with \<open>Errores\<close>.
\<close>

theorem compile_semantic_failure_is_rewrapped:
  "compile_except (Inl (CompilerError m)) = Inl (msg_compilacion @ m)
   \<and> compile_new fr ''print(unknown)\<newline>'' =
       Some (Inl (msg_compilacion @ msg_semanticos @ ''Undefined variable '' @ [CHR 0x27]
                  @ ''unknown'' @ [CHR 0x27]))
   \<and> \<not> prefix ''Errores'' (msg_compilacion @ msg_semanticos @ ''Undefined variable ''
                  @ [CHR 0x27] @ ''unknown'' @ [CHR 0x27])"
proof (intro conjI)
  show "compile_except (Inl (CompilerError m)) = Inl (msg_compilacion @ m)"
    by (simp add: compile_except_def)
  show "compile_new fr ''print(unknown)\<newline>'' =
       Some (Inl (msg_compilacion @ msg_semanticos @ ''Undefined variable '' @ [CHR 0x27]
                  @ ''unknown'' @ [CHR 0x27]))"
    by code_simp
  show "\<not> prefix ''Errores'' (msg_compilacion @ msg_semanticos @ ''Undefined variable ''
                  @ [CHR 0x27] @ ''unknown'' @ [CHR 0x27])"
    by (simp add: msg_compilacion_def)
qed

subsection \<open>Floor division\<close>

text \<open>
  Claim C4. The generator lowers a \<open>BinaryOp\<close> whose operator is \<open>//\<close> to
  \<open>Math.floor(LEFT / RIGHT)\<close>, but no such node is ever built: the lexer has no token
  for \<open>//\<close> and reads two DIVIDE tokens, and the parser finds the second one where an
  operand must start. Compiling \<open>x = 7 // 2\<close> fails with a syntax error.
\<close>

theorem compile_floor_division_fails:
  "cg_visit_expression fr (BinaryOp left ''//'' right) =
     ''Math.floor('' @ cg_visit_expression fr left @ '' / '' @ cg_visit_expression fr right @ '')''
   \<and> map_option (map tok_type) (tokenize ''x = 7 // 2\<newline>'') =
       Some [IDENTIFIER, ASSIGN, NUMBER, DIVIDE, DIVIDE, NUMBER, NEWLINE, EOF]
   \<and> compile_new fr ''x = 7 // 2\<newline>'' =
       Some (Inl (msg_sintaxis @ ''Unexpected token: TokenType.DIVIDE''))"
proof (intro conjI)
  show "cg_visit_expression fr (BinaryOp left ''//'' right) =
     ''Math.floor('' @ cg_visit_expression fr left @ '' / '' @ cg_visit_expression fr right @ '')''"
    by simp
  show "map_option (map tok_type) (tokenize ''x = 7 // 2\<newline>'') =
       Some [IDENTIFIER, ASSIGN, NUMBER, DIVIDE, DIVIDE, NUMBER, NEWLINE, EOF]"
    by code_simp
  show "compile_new fr ''x = 7 // 2\<newline>'' =
       Some (Inl (msg_sintaxis @ ''Unexpected token: TokenType.DIVIDE''))"
    by code_simp
qed

subsection \<open>Precedence and associativity\<close>


subsection \<open>The indentation stack\<close>

text \<open>No method of the lexer but \<open>handle_indentation\<close> and the two dedent loops
  touches the stack, and they never pop its bottom element.\<close>

lemma advance_stack [simp]: "lx_indent_stack (advance l) = lx_indent_stack l"
  by (simp add: advance_def)

lemma advance_while_stack [simp]:
  "lx_indent_stack (advance_while P l) = lx_indent_stack l"
  by (induction P l rule: advance_while.induct)
     (subst advance_while.simps, simp split: option.splits)

lemma read_string_loop_stack [simp]:
  "lx_indent_stack (fst (read_string_loop q v l)) = lx_indent_stack l"
  by (induction q v l rule: read_string_loop.induct)
     (subst read_string_loop.simps, simp split: option.splits add: Let_def)

lemma measure_indent_stack [simp]:
  "lx_indent_stack (fst (measure_indent n l)) = lx_indent_stack l"
  by (induction n l rule: measure_indent.induct)
     (subst measure_indent.simps, simp split: option.splits)

lemma read_number_stack [simp]: "lx_indent_stack (fst (read_number l)) = lx_indent_stack l"
  by (simp add: read_number_def Let_def)

lemma read_identifier_stack [simp]:
  "lx_indent_stack (fst (read_identifier l)) = lx_indent_stack l"
  by (simp add: read_identifier_def Let_def)

lemma read_string_stack [simp]: "lx_indent_stack (fst (read_string l)) = lx_indent_stack l"
  by (simp add: read_string_def Let_def split_beta)

lemma dedent_to_stack_ok: "stack_ok l \<Longrightarrow> stack_ok (fst (dedent_to n l tokens))"
proof (induction n l tokens rule: dedent_to.induct)
  case (1 indent_level l tokens)
  show ?case
  proof (cases "lx_indent_stack l \<noteq> [] \<and> last (lx_indent_stack l) > indent_level")
    case True
    with "1.prems" have "length (lx_indent_stack l) \<noteq> 1"
      by (cases "lx_indent_stack l") (auto simp: stack_ok_def)
    with "1.prems" have "stack_ok (l\<lparr>lx_indent_stack := butlast (lx_indent_stack l)\<rparr>)"
      by (cases "lx_indent_stack l") (auto simp: stack_ok_def)
    with True "1.IH" show ?thesis by (subst dedent_to.simps) simp
  next
    case False
    with "1.prems" show ?thesis by (subst dedent_to.simps) auto
  qed
qed

lemma dedent_all_stack_ok: "stack_ok l \<Longrightarrow> stack_ok (fst (dedent_all l tokens))"
proof (induction l tokens rule: dedent_all.induct)
  case (1 l tokens)
  show ?case
  proof (cases "length (lx_indent_stack l) > 1")
    case True
    with "1.prems" have "stack_ok (l\<lparr>lx_indent_stack := butlast (lx_indent_stack l)\<rparr>)"
      by (cases "lx_indent_stack l") (auto simp: stack_ok_def)
    with True "1.IH" show ?thesis by (subst dedent_all.simps) simp
  next
    case False
    with "1.prems" show ?thesis by (subst dedent_all.simps) auto
  qed
qed

lemma stack_ok_cong: "lx_indent_stack l' = lx_indent_stack l \<Longrightarrow> stack_ok l' = stack_ok l"
  by (simp add: stack_ok_def)

lemma handle_indentation_stack_ok:
  assumes "stack_ok l"
  shows "stack_ok (fst (handle_indentation l))"
proof -
  obtain l1 n where m: "measure_indent 0 l = (l1, n)" by (cases "measure_indent 0 l")
  have "lx_indent_stack (fst (measure_indent 0 l)) = lx_indent_stack l" by simp
  with m assms have l1: "stack_ok l1" by (simp add: stack_ok_def)
  then have push: "stack_ok (l1\<lparr>lx_indent_stack := lx_indent_stack l1 @ [n]\<rparr>)"
    by (simp add: stack_ok_def)
  show ?thesis
    using l1 push dedent_to_stack_ok[OF l1, of n "[]"]
    by (simp add: handle_indentation_def m Let_def)
qed

lemma scan_token_stack [simp]:
  "lx_indent_stack (fst (snd (scan_token c l tokens))) = lx_indent_stack l"
  by (simp add: scan_token_def one_or_two_def skip_whitespace_def Let_def split_beta
        split: option.splits)

lemma tokenize_step_stack_ok:
  assumes "stack_ok (fst (snd s))"
  shows "stack_ok (fst (snd (tokenize_step s)))"
proof -
  obtain b l tokens where s: "s = (b, l, tokens)" by (cases s)
  have l: "stack_ok l" using assms s by simp
  have scan: "stack_ok (fst (snd (scan_token c l' tokens')))" if "stack_ok l'" for c l' tokens'
    using that by (simp add: stack_ok_def)
  have adv: "stack_ok (advance l')" if "stack_ok l'" for l'
    using that by (simp add: stack_ok_def)
  show ?thesis
    using handle_indentation_stack_ok[OF l] dedent_all_stack_ok[OF l, of tokens]
    by (simp add: s tokenize_step_def Let_def split_beta scan adv l)
qed

lemma tokenize_loop_invariant:
  assumes "tokenize_loop s = Some s'" and "stack_ok (fst (snd s))"
  shows "stack_ok (fst (snd s'))"
proof -
  have "stack_ok (fst (snd s)) \<longrightarrow> stack_ok (fst (snd s'))"
  proof (rule tokenize_loop.raw_induct
      [where P = "\<lambda>s s'. stack_ok (fst (snd s)) \<longrightarrow> stack_ok (fst (snd s'))", OF _ assms(1)])
    fix f s r
    assume ih: "\<And>s r. f s = Some r \<Longrightarrow> stack_ok (fst (snd s)) \<longrightarrow> stack_ok (fst (snd r))"
      and r: "(if at_end s then Some s else f (tokenize_step s)) = Some r"
    show "stack_ok (fst (snd s)) \<longrightarrow> stack_ok (fst (snd r))"
    proof (cases "at_end s")
      case True
      with r show ?thesis by simp
    next
      case False
      with r have "f (tokenize_step s) = Some r" by simp
      from ih[OF this] tokenize_step_stack_ok show ?thesis by blast
    qed
  qed
  with assms(2) show ?thesis by simp
qed

lemma Lexer_init_stack_ok: "stack_ok (Lexer_init text)"
  by (simp add: stack_ok_def Lexer_init_def)

subsection \<open>The lexer on a lone exclamation mark\<close>

text \<open>A state that the loop body maps to itself, before the end of the text, is a
  state from which the loop never returns.\<close>

lemma tokenize_loop_returns_not_stuck:
  assumes "tokenize_loop s = Some y"
  shows "\<not> (tokenize_step s = s \<and> \<not> at_end s)"
proof (rule tokenize_loop.raw_induct
    [where P = "\<lambda>s y. \<not> (tokenize_step s = s \<and> \<not> at_end s)", OF _ assms])
  fix loop :: "tokenize_state \<Rightarrow> tokenize_state option" and s y
  assume IH: "\<And>x y. loop x = Some y \<Longrightarrow> \<not> (tokenize_step x = x \<and> \<not> at_end x)"
    and eq: "(if at_end s then Some s else loop (tokenize_step s)) = Some y"
  show "\<not> (tokenize_step s = s \<and> \<not> at_end s)"
  proof
    assume stuck: "tokenize_step s = s \<and> \<not> at_end s"
    with eq have "loop s = Some y" by simp
    from IH[OF this] stuck show False by simp
  qed
qed

lemma tokenize_loop_stuck:
  assumes "tokenize_step s = s" and "\<not> at_end s"
  shows "tokenize_loop s = None"
proof (cases "tokenize_loop s")
  case None
  then show ?thesis .
next
  case (Some y)
  from tokenize_loop_returns_not_stuck[OF this] assms show ?thesis by simp
qed

text \<open>
  Claim C3. \<open>tokenize\<close> should return for every source text. It does not return for
  the text \<open>!\<close>: the branch of the main loop for \<open>!\<close> appends NE and advances only when
  \<open>=\<close> follows, and has no \<open>else\<close>, so the position stays where it is and the loop
  goes round for ever. (The branches for \<open><\<close>, \<open>>\<close> and \<open>=\<close> have the \<open>else\<close>.)
\<close>

theorem tokenize_lone_bang_never_returns:
  "tokenize ''!'' = None"
proof -
  let ?s1 = "(False, Lexer_init ''!'', [])"
  have a: "\<not> at_end (True, Lexer_init ''!'', [])" by code_simp
  have b: "tokenize_step (True, Lexer_init ''!'', []) = ?s1" by code_simp
  have c: "tokenize_step ?s1 = ?s1" by code_simp
  have d: "\<not> at_end ?s1" by code_simp
  have "tokenize_loop (True, Lexer_init ''!'', []) = tokenize_loop ?s1"
    by (subst tokenize_loop.simps) (simp only: a b if_False)
  also have "\<dots> = None" by (rule tokenize_loop_stuck[OF c d])
  finally show ?thesis by (simp add: tokenize_def)
qed

subsection \<open>Built-in calls\<close>

text \<open>
  Claim C6. A call of a built-in function is lowered to the form of the table, around
  the renderings of its arguments and with no parentheses added: \<open>print\<close> to
  \<open>console.log(...)\<close>, \<open>len(x)\<close> to \<open>x.length\<close>, \<open>str\<close>, \<open>int\<close>, \<open>float\<close> and \<open>bool\<close> to
  \<open>String\<close>, \<open>parseInt\<close>, \<open>parseFloat\<close> and \<open>Boolean\<close>, \<open>list\<close> and \<open>dict\<close> to brackets and
  braces, and \<open>range\<close> with one, two or three arguments to \<open>Array.from\<close>. The loop over
  \<open>range(0, 10, 2)\<close> that prints \<open>i\<close> compiles to the text of the claim.
\<close>

theorem builtin_calls_lowered:
  "cg_visit_expression fr (FunctionCall ''print'' args) =
     ''console.log('' @ join '', '' (map (cg_visit_expression fr) args) @ '')''
   \<and> cg_visit_expression fr (FunctionCall ''print'' [a, b]) =
     ''console.log('' @ cg_visit_expression fr a @ '', '' @ cg_visit_expression fr b @ '')''
   \<and> cg_visit_expression fr (FunctionCall ''len'' [x]) = cg_visit_expression fr x @ ''.length''
   \<and> cg_visit_expression fr (FunctionCall ''str'' [x]) =
     ''String('' @ cg_visit_expression fr x @ '')''
   \<and> cg_visit_expression fr (FunctionCall ''int'' [x]) =
     ''parseInt('' @ cg_visit_expression fr x @ '')''
   \<and> cg_visit_expression fr (FunctionCall ''float'' [x]) =
     ''parseFloat('' @ cg_visit_expression fr x @ '')''
   \<and> cg_visit_expression fr (FunctionCall ''bool'' [x]) =
     ''Boolean('' @ cg_visit_expression fr x @ '')''
   \<and> cg_visit_expression fr (FunctionCall ''list'' []) = ''[]''
   \<and> cg_visit_expression fr (FunctionCall ''list'' [a, b]) =
     ''['' @ cg_visit_expression fr a @ '', '' @ cg_visit_expression fr b @ '']''
   \<and> cg_visit_expression fr (FunctionCall ''dict'' []) = ''{}''
   \<and> cg_visit_expression fr (FunctionCall ''dict'' [x]) =
     ''{'' @ cg_visit_expression fr x @ ''}''
   \<and> cg_visit_expression fr (FunctionCall ''range'' [n]) =
     ''Array.from({length: '' @ cg_visit_expression fr n @ ''}, (_, i) => i)''
   \<and> cg_visit_expression fr (FunctionCall ''range'' [a, b]) =
     ''Array.from({length: '' @ cg_visit_expression fr b @ '' - '' @ cg_visit_expression fr a
       @ ''}, (_, i) => i + '' @ cg_visit_expression fr a @ '')''
   \<and> cg_visit_expression fr (FunctionCall ''range'' [a, b, s]) =
     ''Array.from({length: Math.ceil(('' @ cg_visit_expression fr b @ '' - ''
       @ cg_visit_expression fr a @ '') / '' @ cg_visit_expression fr s @ '')}, (_, i) => ''
       @ cg_visit_expression fr a @ '' + i * '' @ cg_visit_expression fr s @ '')''
   \<and> compile_new fr ''for i in range(0, 10, 2):\<newline>    print(i)\<newline>'' =
       Some (Inr (join [CHR ''\<newline>'']
         [''for (const i of Array.from({length: Math.ceil((10 - 0) / 2)}, (_, i) => 0 + i * 2)) {'',
          ''  console.log(i);'',
          ''}'']))"
proof -
  have scenario: "compile_new fr ''for i in range(0, 10, 2):\<newline>    print(i)\<newline>'' =
       Some (Inr (join [CHR ''\<newline>'']
         [''for (const i of Array.from({length: Math.ceil((10 - 0) / 2)}, (_, i) => 0 + i * 2)) {'',
          ''  console.log(i);'',
          ''}'']))"
    by code_simp
  show ?thesis
    by (intro conjI scenario) (simp_all add: lower_call_def generate_range_function_def)
qed

subsection \<open>The elif chain\<close>

lemma parse_if_statement_elif:
  assumes "consume IF p = Some (Inr (p1, t1))"
    and "parse_expression n p1 = Some (Inr (p2, c))"
    and "consume COLON p2 = Some (Inr (p3, t3))"
    and "parse_block ps n p3 = Some (Inr (p4, tb))"
    and "match ELIF p4"
    and "parse_elif_chain ps n p4 = Some (Inr (p5, s))"
  shows "parse_if_statement ps n p = Some (Inr (p5, IfStatement c tb (Some [s])))"
  using assms by (simp add: parse_if_statement_def pbind_def ok_def)

lemma parse_elif_chain_elif:
  assumes "consume ELIF p = Some (Inr (p1, t1))"
    and "parse_expression n p1 = Some (Inr (p2, c))"
    and "consume COLON p2 = Some (Inr (p3, t3))"
    and "parse_block ps n p3 = Some (Inr (p4, tb))"
    and "match ELIF p4"
    and "parse_elif_chain ps n p4 = Some (Inr (p5, s))"
  shows "parse_elif_chain ps (Suc n) p = Some (Inr (p5, IfStatement c tb (Some [s])))"
  using assms by (simp add: pbind_def ok_def)

lemma parse_elif_chain_is_if:
  "parse_elif_chain ps n p = Some (Inr (p', s)) \<Longrightarrow> \<exists>c t e. s = IfStatement c t e"
  by (cases n)
     (auto simp: pbind_def ok_def split: option.splits sum.splits prod.splits if_splits)

text \<open>
  Claim C7. An \<open>elif\<close> is parsed by \<open>parse_elif_chain\<close>, which returns an \<open>IfStatement\<close>
  (the AST has no node for \<open>elif\<close>). When the block of an \<open>if\<close> or of an \<open>elif\<close> is
  followed by ELIF, the statement built has as its \<open>else_body\<close> the list of that one
  \<open>IfStatement\<close>. The generator renders such an \<open>else_body\<close> as the line \<open>} else {\<close>, the
  nested statement one level deeper, and the closing brace. The source of scenario 2
  parses to the nested tree and compiles to the nested text.
\<close>

theorem elif_becomes_nested_if:
  "(\<forall>ps n p p' s. parse_elif_chain ps n p = Some (Inr (p', s)) \<longrightarrow>
      (\<exists>c t e. s = IfStatement c t e))
   \<and> (\<forall>ps n p p1 t1 p2 c p3 t3 p4 tb p5 s.
        consume IF p = Some (Inr (p1, t1)) \<and> parse_expression n p1 = Some (Inr (p2, c))
        \<and> consume COLON p2 = Some (Inr (p3, t3)) \<and> parse_block ps n p3 = Some (Inr (p4, tb))
        \<and> match ELIF p4 \<and> parse_elif_chain ps n p4 = Some (Inr (p5, s))
        \<longrightarrow> parse_if_statement ps n p = Some (Inr (p5, IfStatement c tb (Some [s]))))
   \<and> (\<forall>ps n p p1 t1 p2 c p3 t3 p4 tb p5 s.
        consume ELIF p = Some (Inr (p1, t1)) \<and> parse_expression n p1 = Some (Inr (p2, c))
        \<and> consume COLON p2 = Some (Inr (p3, t3)) \<and> parse_block ps n p3 = Some (Inr (p4, tb))
        \<and> match ELIF p4 \<and> parse_elif_chain ps n p4 = Some (Inr (p5, s))
        \<longrightarrow> parse_elif_chain ps (Suc n) p = Some (Inr (p5, IfStatement c tb (Some [s]))))
   \<and> cg_visit_statement fr (IfStatement c0 tb0 (Some [s0])) g =
       emit ''}'' (indent_less (cg_visit_statement fr s0 (indent_more (emit ''} else {''
         (indent_less (foldl (\<lambda>g stmt. cg_visit_statement fr stmt g)
            (indent_more (emit (''if ('' @ cg_visit_expression fr c0 @ '') {'') g)) tb0))))))
   \<and> parse_text ''def s(n):\<newline>    if n>0:\<newline>        return 1\<newline>    elif n<0:\<newline>        return -1\<newline>    else:\<newline>        return 0\<newline>'' =
       Some (Inr (Program [FunctionDef ''s'' [''n'']
         [IfStatement (BinaryOp (Identifier ''n'') ''>'' (Literal (PyInt 0) ''number''))
            [ReturnStatement (Some (Literal (PyInt 1) ''number''))]
            (Some [IfStatement (BinaryOp (Identifier ''n'') ''<'' (Literal (PyInt 0) ''number''))
               [ReturnStatement (Some (UnaryOp ''-'' (Literal (PyInt 1) ''number'')))]
               (Some [ReturnStatement (Some (Literal (PyInt 0) ''number''))])])]]))
   \<and> compile_new fr ''def s(n):\<newline>    if n>0:\<newline>        return 1\<newline>    elif n<0:\<newline>        return -1\<newline>    else:\<newline>        return 0\<newline>'' =
       Some (Inr (join [CHR ''\<newline>'']
         [''function s(n) {'',
          ''  if ((n > 0)) {'',
          ''    return 1;'',
          ''  } else {'',
          ''    if ((n < 0)) {'',
          ''      return -1;'',
          ''    } else {'',
          ''      return 0;'',
          ''    }'',
          ''  }'',
          ''}'',
          []]))"
proof (intro conjI allI impI)
  fix ps n p p' s
  assume "parse_elif_chain ps n p = Some (Inr (p', s))"
  then show "\<exists>c t e. s = IfStatement c t e" by (rule parse_elif_chain_is_if)
next
  fix ps n p p1 t1 p2 c p3 t3 p4 tb p5 s
  assume "consume IF p = Some (Inr (p1, t1)) \<and> parse_expression n p1 = Some (Inr (p2, c))
        \<and> consume COLON p2 = Some (Inr (p3, t3)) \<and> parse_block ps n p3 = Some (Inr (p4, tb))
        \<and> match ELIF p4 \<and> parse_elif_chain ps n p4 = Some (Inr (p5, s))"
  then show "parse_if_statement ps n p = Some (Inr (p5, IfStatement c tb (Some [s])))"
    using parse_if_statement_elif by blast
next
  fix ps n p p1 t1 p2 c p3 t3 p4 tb p5 s
  assume "consume ELIF p = Some (Inr (p1, t1)) \<and> parse_expression n p1 = Some (Inr (p2, c))
        \<and> consume COLON p2 = Some (Inr (p3, t3)) \<and> parse_block ps n p3 = Some (Inr (p4, tb))
        \<and> match ELIF p4 \<and> parse_elif_chain ps n p4 = Some (Inr (p5, s))"
  then show "parse_elif_chain ps (Suc n) p = Some (Inr (p5, IfStatement c tb (Some [s])))"
    using parse_elif_chain_elif by blast
next
  show "cg_visit_statement fr (IfStatement c0 tb0 (Some [s0])) g =
       emit ''}'' (indent_less (cg_visit_statement fr s0 (indent_more (emit ''} else {''
         (indent_less (foldl (\<lambda>g stmt. cg_visit_statement fr stmt g)
            (indent_more (emit (''if ('' @ cg_visit_expression fr c0 @ '') {'') g)) tb0))))))"
    by simp
next
  show "parse_text ''def s(n):\<newline>    if n>0:\<newline>        return 1\<newline>    elif n<0:\<newline>        return -1\<newline>    else:\<newline>        return 0\<newline>'' =
       Some (Inr (Program [FunctionDef ''s'' [''n'']
         [IfStatement (BinaryOp (Identifier ''n'') ''>'' (Literal (PyInt 0) ''number''))
            [ReturnStatement (Some (Literal (PyInt 1) ''number''))]
            (Some [IfStatement (BinaryOp (Identifier ''n'') ''<'' (Literal (PyInt 0) ''number''))
               [ReturnStatement (Some (UnaryOp ''-'' (Literal (PyInt 1) ''number'')))]
               (Some [ReturnStatement (Some (Literal (PyInt 0) ''number''))])])]]))"
    by code_simp
next
  show "compile_new fr ''def s(n):\<newline>    if n>0:\<newline>        return 1\<newline>    elif n<0:\<newline>        return -1\<newline>    else:\<newline>        return 0\<newline>'' =
       Some (Inr (join [CHR ''\<newline>'']
         [''function s(n) {'',
          ''  if ((n > 0)) {'',
          ''    return 1;'',
          ''  } else {'',
          ''    if ((n < 0)) {'',
          ''      return -1;'',
          ''    } else {'',
          ''      return 0;'',
          ''    }'',
          ''  }'',
          ''}'',
          []]))"
    by code_simp
qed

theorem elif_becomes_nested_if_witness:
  "parse_elif_chain (parse_statement 30) 30 (elif_parser\<lparr>p_pos := 8\<rparr>) =
     Some (Inr (elif_parser\<lparr>p_pos := 16\<rparr>,
                IfStatement (Identifier ''c'') [ExpressionStatement (Identifier ''d'')] None))
   \<and> (\<exists>c t e. IfStatement (Identifier ''c'') [ExpressionStatement (Identifier ''d'')] None
               = IfStatement c t e)
   \<and> match ELIF (elif_parser\<lparr>p_pos := 8\<rparr>)
   \<and> parse_if_statement (parse_statement 30) 30 elif_parser =
       Some (Inr (elif_parser\<lparr>p_pos := 16\<rparr>,
                  IfStatement (Identifier ''a'') [ExpressionStatement (Identifier ''b'')]
                    (Some [IfStatement (Identifier ''c'')
                             [ExpressionStatement (Identifier ''d'')] None])))"
proof -
  have h1: "consume IF elif_parser = Some (Inr (elif_parser\<lparr>p_pos := 1\<rparr>, Tok IF ''if'' 1 1))"
    by code_simp
  have h2: "parse_expression 30 (elif_parser\<lparr>p_pos := 1\<rparr>) =
      Some (Inr (elif_parser\<lparr>p_pos := 2\<rparr>, Identifier ''a''))"
    by code_simp
  have h3: "consume COLON (elif_parser\<lparr>p_pos := 2\<rparr>) =
      Some (Inr (elif_parser\<lparr>p_pos := 3\<rparr>, Tok COLON '':'' 1 5))"
    by code_simp
  have h4: "parse_block (parse_statement 30) 30 (elif_parser\<lparr>p_pos := 3\<rparr>) =
      Some (Inr (elif_parser\<lparr>p_pos := 8\<rparr>, [ExpressionStatement (Identifier ''b'')]))"
    by code_simp
  have h5: "match ELIF (elif_parser\<lparr>p_pos := 8\<rparr>)"
    by code_simp
  have h6: "parse_elif_chain (parse_statement 30) 30 (elif_parser\<lparr>p_pos := 8\<rparr>) =
     Some (Inr (elif_parser\<lparr>p_pos := 16\<rparr>,
                IfStatement (Identifier ''c'') [ExpressionStatement (Identifier ''d'')] None))"
    by code_simp
  note main = elif_becomes_nested_if[where fr = "\<lambda>x. x"]
  have shape:
    "\<exists>c t e. IfStatement (Identifier ''c'') [ExpressionStatement (Identifier ''d'')] None
               = IfStatement c t e"
    by (rule main[THEN conjunct1, rule_format]) (rule h6)
  have nested: "parse_if_statement (parse_statement 30) 30 elif_parser =
       Some (Inr (elif_parser\<lparr>p_pos := 16\<rparr>,
                  IfStatement (Identifier ''a'') [ExpressionStatement (Identifier ''b'')]
                    (Some [IfStatement (Identifier ''c'')
                             [ExpressionStatement (Identifier ''d'')] None])))"
    by (rule main[THEN conjunct2, THEN conjunct1, rule_format,
          OF conjI[OF h1 conjI[OF h2 conjI[OF h3 conjI[OF h4 conjI[OF h5 h6]]]]]])
  from h6 shape h5 nested show ?thesis by (intro conjI)
qed

subsection \<open>A number with more than one dot\<close>

text \<open>
  Claim C10. When the current token is a NUMBER whose lexeme has more than one dot,
  \<open>parse_primary_expression\<close> raises the \<open>ValueError\<close> of \<open>float()\<close>, not a \<open>ParseError\<close>;
  \<open>compile\<close> reports a \<open>ValueError\<close> with the prefix \<open>Error de compilacion: \<close>, which is not
  the prefix of a syntax error. That is what happens for the source \<open>1.2.3\<close>.
\<close>

theorem number_with_two_dots_is_value_error:
  assumes "match NUMBER p"
    and "2 \<le> count_list (tok_value (current_token p)) (CHR ''.'')"
  shows "parse_primary_expression pe n p =
       Some (Inl (ValueError (''could not convert string to float: ''
                   @ repr_str (tok_value (current_token p)))))
     \<and> compile_except (Inl (ValueError m)) = Inl (msg_compilacion @ m)
     \<and> \<not> prefix msg_sintaxis (msg_compilacion @ m)
     \<and> map_option (map tok_value) (tokenize ''1.2.3'') = Some [''1.2.3'', []]
     \<and> compile_new fr ''1.2.3'' =
         Some (Inl (msg_compilacion @ ''could not convert string to float: ''
                    @ [CHR 0x27] @ ''1.2.3'' @ [CHR 0x27]))"
proof (intro conjI)
  have "CHR ''.'' \<in> set (tok_value (current_token p))"
    using assms(2) by (metis count_list_0_iff not_numeral_le_zero)
  then show "parse_primary_expression pe n p =
       Some (Inl (ValueError (''could not convert string to float: ''
                   @ repr_str (tok_value (current_token p)))))"
    using assms by (simp add: parse_primary_expression_def py_float_def raise_def Let_def)
  show "compile_except (Inl (ValueError m)) = Inl (msg_compilacion @ m)"
    by (simp add: compile_except_def)
  show "\<not> prefix msg_sintaxis (msg_compilacion @ m)"
    by (simp add: msg_sintaxis_def msg_compilacion_def)
  show "map_option (map tok_value) (tokenize ''1.2.3'') = Some [''1.2.3'', []]"
    by code_simp
  show "compile_new fr ''1.2.3'' =
         Some (Inl (msg_compilacion @ ''could not convert string to float: ''
                    @ [CHR 0x27] @ ''1.2.3'' @ [CHR 0x27]))"
    by code_simp
qed

theorem number_with_two_dots_is_value_error_witness:
  "match NUMBER dotted_number_parser
   \<and> 2 \<le> count_list (tok_value (current_token dotted_number_parser)) (CHR ''.'')
   \<and> parse_primary_expression (parse_expression 5) 5 dotted_number_parser =
       Some (Inl (ValueError (''could not convert string to float: ''
                   @ [CHR 0x27] @ ''1.2.3'' @ [CHR 0x27])))"
proof -
  have h1: "match NUMBER dotted_number_parser" by code_simp
  have h2: "2 \<le> count_list (tok_value (current_token dotted_number_parser)) (CHR ''.'')"
    by code_simp
  have r: "repr_str (tok_value (current_token dotted_number_parser)) =
      [CHR 0x27] @ ''1.2.3'' @ [CHR 0x27]"
    by code_simp
  from number_with_two_dots_is_value_error
         [OF h1 h2, where pe = "parse_expression 5" and n = 5 and fr = "\<lambda>x. x" and m = "[]"]
  have "parse_primary_expression (parse_expression 5) 5 dotted_number_parser =
       Some (Inl (ValueError (''could not convert string to float: ''
                   @ repr_str (tok_value (current_token dotted_number_parser)))))"
    by (rule conjunct1)
  with h1 h2 r show ?thesis by simp
qed

subsection \<open>Diagnostics of a function call\<close>





text \<open>Looking a name up after a declaration in the current scope.\<close>

lemma lookup_from_update_above:
  "i < k \<Longrightarrow> lookup_from (t\<lparr>st_scopes := (st_scopes t)[k := d]\<rparr>) name i = lookup_from t name i"
  by (induction i) (simp_all split: option.splits)

lemma lookup_declare_symbol:
  assumes "st_current_scope t < length (st_scopes t)"
  shows "lookup (declare_symbol name ty t) name' =
     (if name' = name
      then Some \<lparr>sym_name = name, sym_type = ty,
                 sym_scope = ''scope_'' @ str_nat (st_current_scope t)\<rparr>
      else lookup t name')"
proof (cases "st_current_scope t")
  case 0
  with assms show ?thesis
    by (simp add: lookup_def declare_symbol_def Let_def update_conv')
next
  case (Suc k)
  with assms show ?thesis
    by (simp add: lookup_def declare_symbol_def Let_def update_conv' lookup_from_update_above
          split: option.splits)
qed

lemma sa_declare_fields [simp]:
  "st_current_scope (sa_symbol_table (sa_declare name ty a)) = st_current_scope (sa_symbol_table a)"
  "length (st_scopes (sa_symbol_table (sa_declare name ty a))) = length (st_scopes (sa_symbol_table a))"
  "sa_errors (sa_declare name ty a) = sa_errors a"
  "sa_current_function (sa_declare name ty a) = sa_current_function a"
  by (simp_all add: sa_declare_def declare_symbol_def Let_def)

lemma lookup_sa_declare:
  assumes "st_current_scope (sa_symbol_table a) < length (st_scopes (sa_symbol_table a))"
  shows "lookup (sa_symbol_table (sa_declare name ty a)) name' =
     (if name' = name
      then Some \<lparr>sym_name = name, sym_type = ty,
                 sym_scope = ''scope_'' @ str_nat (st_current_scope (sa_symbol_table a))\<rparr>
      else lookup (sa_symbol_table a) name')"
  using lookup_declare_symbol[OF assms] by (simp add: sa_declare_def)

lemma builtin_is_function:
  assumes "st_current_scope (sa_symbol_table a) < length (st_scopes (sa_symbol_table a))"
    and "b \<in> set builtin_functions"
  shows "map_option sym_type (lookup (sa_symbol_table (declare_builtins a)) b) = Some ''function''"
  using assms by (auto simp: declare_builtins_def builtin_functions_def lookup_sa_declare)

lemma builtin_call_no_diagnostic:
  assumes "st_current_scope (sa_symbol_table a) < length (st_scopes (sa_symbol_table a))"
    and "b \<in> set builtin_functions"
  shows "check_callee b (declare_builtins a) = declare_builtins a"
  using builtin_is_function[OF assms]
  by (auto simp: check_callee_def split: option.splits)

lemma declare_builtins_fields [simp]:
  "sa_errors (declare_builtins a) = sa_errors a"
  "st_current_scope (sa_symbol_table (declare_builtins a)) = st_current_scope (sa_symbol_table a)"
  "length (st_scopes (sa_symbol_table (declare_builtins a))) = length (st_scopes (sa_symbol_table a))"
  by (simp_all add: declare_builtins_def builtin_functions_def)










subsection \<open>The end of the token list\<close>

lemma no_eof_simps [simp]:
  "no_eof []"
  "no_eof (ts @ us) \<longleftrightarrow> no_eof ts \<and> no_eof us"
  "no_eof (t # ts) \<longleftrightarrow> tok_type t \<noteq> EOF \<and> no_eof ts"
  by (auto simp: no_eof_def)

lemma Tok_type [simp]: "tok_type (Tok ty v ln col) = ty"
  by (simp add: Tok_def)













subsection \<open>Augmented assignment\<close>


lemma ok_eq [simp]: "ok v p = Some (Inr (q, w)) \<longleftrightarrow> q = p \<and> w = v"
  by (auto simp: ok_def)

lemma raise_neq [simp]: "raise e \<noteq> Some (Inr x)"
  by (simp add: raise_def)

lemma clean_advance:
  assumes "clean_upto ts p" and "match T p" and "T \<noteq> PLUS_ASSIGN" and "T \<noteq> MINUS_ASSIGN"
  shows "clean_upto ts (p_advance p)"
proof -
  have "\<not> augmented (ts ! p_pos p)"
    using assms by (auto simp: clean_upto_def match_def current_token_def augmented_def)
  with assms(1) show ?thesis
    by (auto simp: clean_upto_def p_advance_def less_Suc_eq)
qed














































lemma pbind_raise [simp]: "pbind (raise e) f = raise e"
  by (simp add: pbind_def raise_def)

lemma pbind_ok [simp]: "pbind (ok v p) f = f p v"
  by (simp add: pbind_def ok_def)


























end
